theory Spec2Isabelle
  imports Complex_Main "HOL-Library.Char_ord" "HOL-Library.List_Lexorder" "HOL-Library.Sublist"
begin

section \<open>Values of the data layer\<close>

text \<open>
  A pandas \<open>Timestamp\<close> is a point on a linear time axis, an integer count of time
  units since the epoch; \<open>NaT\<close> is \<open>None\<close>. A float cell is a real number, \<open>NaN\<close> is \<open>None\<close>: the code only
  compares and copies prices, and comparison of floats that are not NaN is exact.
  Infinities and the sign of zero are not represented.
\<close>

type_synonym timestamp = int

datatype py_error = KeyError | ValueError | TypeError | OSError | UpstreamError

text \<open>
  One row of a cleaned table, restricted to the four columns the extractor reads.
  The tables the providers return carry pandas' default index, whose labels are unique;
  so the label \<open>idxmax\<close> returns and \<open>df.loc[label, ...]\<close> resolves stand for the position
  of the row.
\<close>

record row =
  date :: "timestamp option"
  close :: "real option"
  high :: "real option"
  low :: "real option"

text \<open>The dict \<open>_extract_metrics\<close> returns; \<open>source\<close> is the key the two adapters of
  the special index add afterwards.\<close>

record metrics =
  cur :: "real option"
  hv :: real
  hd' :: string
  lv :: real
  ld :: string
  source :: "string option"

section \<open>The metrics extractor\<close>

text \<open>
  \<open>Series.idxmax()\<close> with its default \<open>skipna=True\<close>: the first position holding the
  largest value that is not NaN, paired here with that value; \<open>None\<close> when every entry
  is NaN (pandas raises, or returns NaN on which the following \<open>df.loc\<close> raises).
\<close>

fun idxmax :: "real option list \<Rightarrow> (nat \<times> real) option" where
  "idxmax [] = None"
| "idxmax (None # xs) = map_option (\<lambda>(i, w). (Suc i, w)) (idxmax xs)"
| "idxmax (Some v # xs) =
     (case idxmax xs of
        None \<Rightarrow> Some (0, v)
      | Some (i, w) \<Rightarrow> if v < w then Some (Suc i, w) else Some (0, v))"

fun idxmin :: "real option list \<Rightarrow> (nat \<times> real) option" where
  "idxmin [] = None"
| "idxmin (None # xs) = map_option (\<lambda>(i, w). (Suc i, w)) (idxmin xs)"
| "idxmin (Some v # xs) =
     (case idxmin xs of
        None \<Rightarrow> Some (0, v)
      | Some (i, w) \<Rightarrow> if w < v then Some (Suc i, w) else Some (0, v))"

text \<open>\<open>Timestamp.strftime\<close>, a library function taken as a parameter; on \<open>NaT\<close> it raises.\<close>

definition strftime_at :: "(timestamp \<Rightarrow> string) \<Rightarrow> row \<Rightarrow> py_error + string" where
  "strftime_at fmt r = (case date r of None \<Rightarrow> Inl ValueError | Some d \<Rightarrow> Inr (fmt d))"

definition extract_metrics :: "(timestamp \<Rightarrow> string) \<Rightarrow> row list \<Rightarrow> py_error + metrics option" where
  "extract_metrics fmt df =
     (if df = [] then Inr None
      else
        let current_value = close (last df) in
        case idxmax (map high df) of
          None \<Rightarrow> Inl ValueError
        | Some (high_idx, h) \<Rightarrow>
            (case idxmin (map low df) of
               None \<Rightarrow> Inl ValueError
             | Some (low_idx, l) \<Rightarrow>
                 (case strftime_at fmt (df ! high_idx) of
                    Inl e \<Rightarrow> Inl e
                  | Inr hds \<Rightarrow>
                      (case strftime_at fmt (df ! low_idx) of
                         Inl e \<Rightarrow> Inl e
                       | Inr lds \<Rightarrow>
                           Inr (Some \<lparr>cur = current_value, hv = h, hd' = hds,
                                      lv = l, ld = lds, source = None\<rparr>)))))"

section \<open>Python strings\<close>

text \<open>
  A Python \<open>str\<close> is modelled by its UTF-8 bytes. Equality, \<open>startswith\<close> and \<open>replace\<close>
  with ASCII patterns, and the order of strings agree on bytes and on code points.
  \<open>lower\<close> acts on the ASCII letters. The code uses the lower-cased labels only in tests
  for equality with \<open>date\<close>, \<open>time\<close>, \<open>close\<close>, \<open>high\<close>, \<open>low\<close>, \<open>latest\<close> and the CJK label
  of the date; the one character outside ASCII whose lower case is an ASCII letter is U+212A
  (k), a letter of none of them, so these tests have the outcome they have in Python.
\<close>

definition lower_char :: "char \<Rightarrow> char" where
  "lower_char c =
     (case map_of (zip ''ABCDEFGHIJKLMNOPQRSTUVWXYZ'' ''abcdefghijklmnopqrstuvwxyz'') c of
        None \<Rightarrow> c
      | Some l \<Rightarrow> l)"

definition lower :: "string \<Rightarrow> string" where
  "lower s = map lower_char s"

definition startswith :: "string \<Rightarrow> string \<Rightarrow> bool" where
  "startswith s p \<longleftrightarrow> take (length p) s = p"

text \<open>
  The white space of \<open>str.strip()\<close>: the code points for which \<open>str.isspace\<close> holds,
  U+0009 to U+000D, U+001C to U+0020, U+0085, U+00A0, U+1680, U+2000 to U+200A, U+2028,
  U+2029, U+202F, U+205F and U+3000, each as its UTF-8 bytes. No encoding is a prefix of
  another, and none can end inside another character, so removing these byte sequences at
  the two ends removes exactly the white space characters there.
\<close>

definition whitespace :: "string list" where
  "whitespace =
     [[CHR 0x09],
      [CHR 0x0A],
      [CHR 0x0B],
      [CHR 0x0C],
      [CHR 0x0D],
      [CHR 0x1C],
      [CHR 0x1D],
      [CHR 0x1E],
      [CHR 0x1F],
      [CHR 0x20],
      [CHR 0xC2, CHR 0x85],
      [CHR 0xC2, CHR 0xA0],
      [CHR 0xE1, CHR 0x9A, CHR 0x80],
      [CHR 0xE2, CHR 0x80, CHR 0x80],
      [CHR 0xE2, CHR 0x80, CHR 0x81],
      [CHR 0xE2, CHR 0x80, CHR 0x82],
      [CHR 0xE2, CHR 0x80, CHR 0x83],
      [CHR 0xE2, CHR 0x80, CHR 0x84],
      [CHR 0xE2, CHR 0x80, CHR 0x85],
      [CHR 0xE2, CHR 0x80, CHR 0x86],
      [CHR 0xE2, CHR 0x80, CHR 0x87],
      [CHR 0xE2, CHR 0x80, CHR 0x88],
      [CHR 0xE2, CHR 0x80, CHR 0x89],
      [CHR 0xE2, CHR 0x80, CHR 0x8A],
      [CHR 0xE2, CHR 0x80, CHR 0xA8],
      [CHR 0xE2, CHR 0x80, CHR 0xA9],
      [CHR 0xE2, CHR 0x80, CHR 0xAF],
      [CHR 0xE2, CHR 0x81, CHR 0x9F],
      [CHR 0xE3, CHR 0x80, CHR 0x80]]"

function lstrip_with :: "string list \<Rightarrow> string \<Rightarrow> string" where
  "lstrip_with ws s =
     (case find (\<lambda>w. w \<noteq> [] \<and> startswith s w) ws of
        None \<Rightarrow> s
      | Some w \<Rightarrow> lstrip_with ws (drop (length w) s))"
  by pat_completeness auto
termination
proof (relation "measure (\<lambda>(ws, s). length s)")
  show "wf (measure (\<lambda>(ws, s). length s))" by simp
next
  fix ws :: "string list" and s w :: string
  assume "find (\<lambda>w. w \<noteq> [] \<and> startswith s w) ws = Some w"
  then have w: "w \<noteq> []" "take (length w) s = w"
    by (auto simp: find_Some_iff startswith_def)
  from w(2) have "length (take (length w) s) = length w" by simp
  then have "length w \<le> length s" by simp
  with w(1) show "((ws, drop (length w) s), (ws, s)) \<in> measure (\<lambda>(ws, s). length s)"
    by (cases w) auto
qed

declare lstrip_with.simps [simp del]

definition strip :: "string \<Rightarrow> string" where
  "strip s = rev (lstrip_with (map rev whitespace) (rev (lstrip_with whitespace s)))"

text \<open>\<open>s.replace(old, new)\<close>: every occurrence of \<open>old\<close>, scanning from the left without
  overlap; an empty \<open>old\<close> matches before every character and at the end.\<close>

function replace :: "string \<Rightarrow> string \<Rightarrow> string \<Rightarrow> string" where
  "replace old new s =
     (if old = [] then new @ concat (map (\<lambda>c. c # new) s)
      else if s = [] then []
      else if startswith s old then new @ replace old new (drop (length old) s)
      else hd s # replace old new (tl s))"
  by pat_completeness auto
termination
  by (relation "measure (\<lambda>(old, new, s). length s)") auto

declare replace.simps [simp del]

section \<open>Configuration\<close>

definition LOOKBACK_YEARS :: nat where
  "LOOKBACK_YEARS = 5"

definition riqi :: string where \<comment> \<open>U+65E5 U+671F\<close>
  "riqi = [CHR 0xE6, CHR 0x97, CHR 0xA5, CHR 0xE6, CHR 0x9C, CHR 0x9F]"

definition kaipan :: string where \<comment> \<open>U+5F00 U+76D8\<close>
  "kaipan = [CHR 0xE5, CHR 0xBC, CHR 0x80, CHR 0xE7, CHR 0x9B, CHR 0x98]"

definition shoupan :: string where \<comment> \<open>U+6536 U+76D8\<close>
  "shoupan = [CHR 0xE6, CHR 0x94, CHR 0xB6, CHR 0xE7, CHR 0x9B, CHR 0x98]"

definition zuigao :: string where \<comment> \<open>U+6700 U+9AD8\<close>
  "zuigao = [CHR 0xE6, CHR 0x9C, CHR 0x80, CHR 0xE9, CHR 0xAB, CHR 0x98]"

definition zuidi :: string where \<comment> \<open>U+6700 U+4F4E\<close>
  "zuidi = [CHR 0xE6, CHR 0x9C, CHR 0x80, CHR 0xE4, CHR 0xBD, CHR 0x8E]"

definition shangzheng_zhishu :: string where \<comment> \<open>U+4E0A U+8BC1 U+6307 U+6570\<close>
  "shangzheng_zhishu = [CHR 0xE4, CHR 0xB8, CHR 0x8A, CHR 0xE8, CHR 0xAF, CHR 0x81, CHR
     0xE6, CHR 0x8C, CHR 0x87, CHR 0xE6, CHR 0x95, CHR 0xB0]"

definition chuangyeban_zhi :: string where \<comment> \<open>U+521B U+4E1A U+677F U+6307\<close>
  "chuangyeban_zhi = [CHR 0xE5, CHR 0x88, CHR 0x9B, CHR 0xE4, CHR 0xB8, CHR 0x9A, CHR
     0xE6, CHR 0x9D, CHR 0xBF, CHR 0xE6, CHR 0x8C, CHR 0x87]"

definition hushen_300 :: string where \<comment> \<open>U+6CAA U+6DF1 U+0033 U+0030 U+0030\<close>
  "hushen_300 = [CHR 0xE6, CHR 0xB2, CHR 0xAA, CHR 0xE6, CHR 0xB7, CHR 0xB1, CHR ''3'',
     CHR ''0'', CHR ''0'']"

definition zhongzheng_500 :: string where \<comment> \<open>U+4E2D U+8BC1 U+0035 U+0030 U+0030\<close>
  "zhongzheng_500 = [CHR 0xE4, CHR 0xB8, CHR 0xAD, CHR 0xE8, CHR 0xAF, CHR 0x81, CHR
     ''5'', CHR ''0'', CHR ''0'']"

definition shangzheng_50 :: string where \<comment> \<open>U+4E0A U+8BC1 U+0035 U+0030\<close>
  "shangzheng_50 = [CHR 0xE4, CHR 0xB8, CHR 0x8A, CHR 0xE8, CHR 0xAF, CHR 0x81, CHR
     ''5'', CHR ''0'']"

definition zhongzheng_1000 :: string where \<comment> \<open>U+4E2D U+8BC1 U+0031 U+0030 U+0030 U+0030\<close>
  "zhongzheng_1000 = [CHR 0xE4, CHR 0xB8, CHR 0xAD, CHR 0xE8, CHR 0xAF, CHR 0x81, CHR
     ''1'', CHR ''0'', CHR ''0'', CHR ''0'']"

definition zhongzheng_hongli :: string where \<comment> \<open>U+4E2D U+8BC1 U+7EA2 U+5229\<close>
  "zhongzheng_hongli = [CHR 0xE4, CHR 0xB8, CHR 0xAD, CHR 0xE8, CHR 0xAF, CHR 0x81, CHR
     0xE7, CHR 0xBA, CHR 0xA2, CHR 0xE5, CHR 0x88, CHR 0xA9]"

definition zhongzheng_yiliao :: string where \<comment> \<open>U+4E2D U+8BC1 U+533B U+7597\<close>
  "zhongzheng_yiliao = [CHR 0xE4, CHR 0xB8, CHR 0xAD, CHR 0xE8, CHR 0xAF, CHR 0x81, CHR
     0xE5, CHR 0x8C, CHR 0xBB, CHR 0xE7, CHR 0x96, CHR 0x97]"

definition quanzhi_yiyao :: string where \<comment> \<open>U+5168 U+6307 U+533B U+836F\<close>
  "quanzhi_yiyao = [CHR 0xE5, CHR 0x85, CHR 0xA8, CHR 0xE6, CHR 0x8C, CHR 0x87, CHR
     0xE5, CHR 0x8C, CHR 0xBB, CHR 0xE8, CHR 0x8D, CHR 0xAF]"

definition quanzhi_xiaofei :: string where \<comment> \<open>U+5168 U+6307 U+6D88 U+8D39\<close>
  "quanzhi_xiaofei = [CHR 0xE5, CHR 0x85, CHR 0xA8, CHR 0xE6, CHR 0x8C, CHR 0x87, CHR
     0xE6, CHR 0xB6, CHR 0x88, CHR 0xE8, CHR 0xB4, CHR 0xB9]"

definition zhongzheng_xiaofei :: string where \<comment> \<open>U+4E2D U+8BC1 U+6D88 U+8D39\<close>
  "zhongzheng_xiaofei = [CHR 0xE4, CHR 0xB8, CHR 0xAD, CHR 0xE8, CHR 0xAF, CHR 0x81, CHR
     0xE6, CHR 0xB6, CHR 0x88, CHR 0xE8, CHR 0xB4, CHR 0xB9]"

definition quanzhi_xinxi :: string where \<comment> \<open>U+5168 U+6307 U+4FE1 U+606F\<close>
  "quanzhi_xinxi = [CHR 0xE5, CHR 0x85, CHR 0xA8, CHR 0xE6, CHR 0x8C, CHR 0x87, CHR
     0xE4, CHR 0xBF, CHR 0xA1, CHR 0xE6, CHR 0x81, CHR 0xAF]"

definition zhongzheng_chuanmei :: string where \<comment> \<open>U+4E2D U+8BC1 U+4F20 U+5A92\<close>
  "zhongzheng_chuanmei = [CHR 0xE4, CHR 0xB8, CHR 0xAD, CHR 0xE8, CHR 0xAF, CHR 0x81,
     CHR 0xE4, CHR 0xBC, CHR 0xA0, CHR 0xE5, CHR 0xAA, CHR 0x92]"

definition shipin_yinliao :: string where \<comment> \<open>U+98DF U+54C1 U+996E U+6599\<close>
  "shipin_yinliao = [CHR 0xE9, CHR 0xA3, CHR 0x9F, CHR 0xE5, CHR 0x93, CHR 0x81, CHR
     0xE9, CHR 0xA5, CHR 0xAE, CHR 0xE6, CHR 0x96, CHR 0x99]"

definition zhongzheng_jungong :: string where \<comment> \<open>U+4E2D U+8BC1 U+519B U+5DE5\<close>
  "zhongzheng_jungong = [CHR 0xE4, CHR 0xB8, CHR 0xAD, CHR 0xE8, CHR 0xAF, CHR 0x81, CHR
     0xE5, CHR 0x86, CHR 0x9B, CHR 0xE5, CHR 0xB7, CHR 0xA5]"

definition zhonggai_hulian :: string where \<comment> \<open>U+4E2D U+6982 U+4E92 U+8054\<close>
  "zhonggai_hulian = [CHR 0xE4, CHR 0xB8, CHR 0xAD, CHR 0xE6, CHR 0xA6, CHR 0x82, CHR
     0xE4, CHR 0xBA, CHR 0x92, CHR 0xE8, CHR 0x81, CHR 0x94]"

definition hengsheng_zhishu :: string where \<comment> \<open>U+6052 U+751F U+6307 U+6570\<close>
  "hengsheng_zhishu = [CHR 0xE6, CHR 0x81, CHR 0x92, CHR 0xE7, CHR 0x94, CHR 0x9F, CHR
     0xE6, CHR 0x8C, CHR 0x87, CHR 0xE6, CHR 0x95, CHR 0xB0]"

definition hengsheng_keji :: string where \<comment> \<open>U+6052 U+751F U+79D1 U+6280\<close>
  "hengsheng_keji = [CHR 0xE6, CHR 0x81, CHR 0x92, CHR 0xE7, CHR 0x94, CHR 0x9F, CHR
     0xE7, CHR 0xA7, CHR 0x91, CHR 0xE6, CHR 0x8A, CHR 0x80]"

definition hengsheng_yiliao :: string where \<comment> \<open>U+6052 U+751F U+533B U+7597\<close>
  "hengsheng_yiliao = [CHR 0xE6, CHR 0x81, CHR 0x92, CHR 0xE7, CHR 0x94, CHR 0x9F, CHR
     0xE5, CHR 0x8C, CHR 0xBB, CHR 0xE7, CHR 0x96, CHR 0x97]"

definition biaopu_500 :: string where \<comment> \<open>U+6807 U+666E U+0035 U+0030 U+0030\<close>
  "biaopu_500 = [CHR 0xE6, CHR 0xA0, CHR 0x87, CHR 0xE6, CHR 0x99, CHR 0xAE, CHR ''5'',
     CHR ''0'', CHR ''0'']"

definition nazhi_100 :: string where \<comment> \<open>U+7EB3 U+6307 U+0031 U+0030 U+0030\<close>
  "nazhi_100 = [CHR 0xE7, CHR 0xBA, CHR 0xB3, CHR 0xE6, CHR 0x8C, CHR 0x87, CHR ''1'',
     CHR ''0'', CHR ''0'']"

definition group_core :: string where \<comment> \<open>U+1F3DB U+0020 U+6838 U+5FC3 U+5BBD U+57FA\<close>
  "group_core = [CHR 0xF0, CHR 0x9F, CHR 0x8F, CHR 0x9B, CHR '' '', CHR 0xE6, CHR 0xA0,
     CHR 0xB8, CHR 0xE5, CHR 0xBF, CHR 0x83, CHR 0xE5, CHR 0xAE, CHR 0xBD, CHR 0xE5, CHR
     0x9F, CHR 0xBA]"

definition group_sector :: string where \<comment> \<open>U+1F48A U+0020 U+884C U+4E1A U+677F U+5757\<close>
  "group_sector = [CHR 0xF0, CHR 0x9F, CHR 0x92, CHR 0x8A, CHR '' '', CHR 0xE8, CHR
     0xA1, CHR 0x8C, CHR 0xE4, CHR 0xB8, CHR 0x9A, CHR 0xE6, CHR 0x9D, CHR 0xBF, CHR
     0xE5, CHR 0x9D, CHR 0x97]"

definition group_global :: string where \<comment> \<open>U+1F30D U+0020 U+5168 U+7403 U+5E02 U+573A\<close>
  "group_global = [CHR 0xF0, CHR 0x9F, CHR 0x8C, CHR 0x8D, CHR '' '', CHR 0xE5, CHR
     0x85, CHR 0xA8, CHR 0xE7, CHR 0x90, CHR 0x83, CHR 0xE5, CHR 0xB8, CHR 0x82, CHR
     0xE5, CHR 0x9C, CHR 0xBA]"

definition INDEX_GROUPS :: "(string \<times> (string \<times> string) list) list" where
  "INDEX_GROUPS =
     [(group_core,
        [(shangzheng_zhishu, ''sh000001''), (chuangyeban_zhi, ''sz399006''),
         (hushen_300, ''sh000300''), (zhongzheng_500, ''sh000905''),
         (shangzheng_50, ''sh000016''), (zhongzheng_1000, ''sh000852'')]),
      (group_sector,
        [(zhongzheng_hongli, ''sh000922''), (zhongzheng_yiliao, ''sz399989''),
         (quanzhi_yiyao, ''sh000991''), (quanzhi_xiaofei, ''sh000990''),
         (zhongzheng_xiaofei, ''sh000932''), (quanzhi_xinxi, ''sh000993''),
         (zhongzheng_chuanmei, ''sz399971''), (shipin_yinliao, ''sz399396''),
         (zhongzheng_jungong, ''sz399967''), (zhonggai_hulian, ''H30533'')]),
      (group_global,
        [(hengsheng_zhishu, ''hkHSI''), (hengsheng_keji, ''hkHSTECH''),
         (hengsheng_yiliao, ''hkHSHCI''), (biaopu_500, ''gb.INX''),
         (nazhi_100, ''gb.NDX'')])]"

section \<open>Tables and the pandas functions the code calls\<close>

text \<open>
  A \<open>DataFrame\<close> as a provider returns it: the column labels in order, and one list of
  cells per row. The cell type \<open>'c\<close> is whatever the provider delivers (text, numbers,
  dates); a cell missing from a short row reads as a missing value.
\<close>

record 'c frame =
  columns :: "string list"
  rows :: "'c list list"

definition df_empty :: "'c frame \<Rightarrow> bool" where
  "df_empty df \<longleftrightarrow> columns df = [] \<or> rows df = []"

text \<open>
  The pandas functions are library code, taken as parameters.
  \<open>to_datetime\<close> is \<open>pd.to_datetime(..., errors='coerce')\<close> on one cell and \<open>to_numeric\<close> is
  \<open>pd.to_numeric(..., errors='coerce')\<close> on one cell (\<open>None\<close> is NaT or NaN);
  \<open>to_datetime_format\<close> is \<open>pd.to_datetime(..., format='%Y%m%d')\<close>, which raises on a cell it
  cannot parse; \<open>strftime\<close> takes the format first; \<open>minus_years t n\<close> is
  \<open>t - pd.DateOffset(years=n)\<close>; \<open>sort_values i\<close> sorts rows by the cells of column \<open>i\<close>.
\<close>

record 'c pandas =
  to_datetime :: "'c option \<Rightarrow> timestamp option"
  to_numeric :: "'c option \<Rightarrow> real option"
  to_datetime_format :: "'c option \<Rightarrow> py_error + timestamp option"
  strftime :: "string \<Rightarrow> timestamp \<Rightarrow> string"
  minus_years :: "timestamp \<Rightarrow> nat \<Rightarrow> timestamp"
  sort_values :: "nat \<Rightarrow> 'c list list \<Rightarrow> 'c list list"

definition cell_at :: "'c list \<Rightarrow> nat \<Rightarrow> 'c option" where
  "cell_at r i = (if i < length r then Some (r ! i) else None)"

definition positions :: "string \<Rightarrow> string list \<Rightarrow> nat list" where
  "positions c cols = filter (\<lambda>i. cols ! i = c) [0..<length cols]"

text \<open>\<open>df[c]\<close> handed to a function that wants one column: \<open>KeyError\<close> when no column has
  the label, the error \<open>dup\<close> of that function when several have it.\<close>

definition column_of :: "string list \<Rightarrow> string \<Rightarrow> py_error \<Rightarrow> py_error + nat" where
  "column_of cols c dup =
     (case positions c cols of [] \<Rightarrow> Inl KeyError | [i] \<Rightarrow> Inr i | _ \<Rightarrow> Inl dup)"

text \<open>\<open>df.rename(columns=m)\<close> on the labels.\<close>

definition rename :: "(string \<times> string) list \<Rightarrow> string list \<Rightarrow> string list" where
  "rename m cols = map (\<lambda>c. case map_of m c of None \<Rightarrow> c | Some c' \<Rightarrow> c') cols"

section \<open>The shared cleaning routine\<close>

text \<open>
  \<open>DataFetcher._clean_dataframe\<close>. The loop over \<open>['close', 'high', 'low']\<close> is unrolled:
  \<open>close\<close> must exist (the loop reads \<open>df['close']\<close> when it does not); a missing \<open>high\<close>
  or \<open>low\<close> is a copy of the converted \<open>close\<close>. The result keeps the four columns the
  extractor reads.
\<close>

definition clean_dataframe :: "'c pandas \<Rightarrow> timestamp \<Rightarrow> 'c frame \<Rightarrow> py_error + row list" where
  "clean_dataframe pd now df =
     (let cols = map lower (columns df);
          cols = (case find (\<lambda>c. c \<in> set [''date'', ''time'', riqi]) cols of
                    None \<Rightarrow> cols
                  | Some date_col \<Rightarrow> rename [(date_col, ''date'')] cols)
      in case column_of cols ''date'' ValueError of
           Inl e \<Rightarrow> Inl e
         | Inr di \<Rightarrow>
             let dated = map (\<lambda>r. (to_datetime pd (cell_at r di), r)) (rows df);
                 dated = filter (\<lambda>(d, r). d \<noteq> None) dated;
                 cutoff_date = minus_years pd now LOOKBACK_YEARS;
                 kept = filter (\<lambda>(d, r). case d of None \<Rightarrow> False | Some t \<Rightarrow> cutoff_date \<le> t) dated
             in case column_of cols ''close'' TypeError of
                  Inl e \<Rightarrow> Inl e
                | Inr ci \<Rightarrow>
                    (case (if ''high'' \<in> set cols then column_of cols ''high'' TypeError else Inr ci) of
                       Inl e \<Rightarrow> Inl e
                     | Inr hi \<Rightarrow>
                         (case (if ''low'' \<in> set cols then column_of cols ''low'' TypeError else Inr ci) of
                            Inl e \<Rightarrow> Inl e
                          | Inr li \<Rightarrow>
                              Inr (filter (\<lambda>r. close r \<noteq> None)
                                     (map (\<lambda>(d, r).
                                             \<lparr>date = d,
                                              close = to_numeric pd (cell_at r ci),
                                              high = to_numeric pd (cell_at r hi),
                                              low = to_numeric pd (cell_at r li)\<rparr>)
                                          kept)))))"

section \<open>The provider adapters\<close>

text \<open>
  What lies outside the program: the configured token, the result of creating the
  Tushare client, and the answer of each provider function to each request (a table, or
  the exception the call raises).
\<close>

datatype pro_client = ProClient

record 'c providers =
  TUSHARE_TOKEN :: string
  pro_api :: "py_error + pro_client"
  index_daily :: "string \<Rightarrow> string \<Rightarrow> string \<Rightarrow> py_error + 'c frame"
  fund_etf_hist_em :: "string \<Rightarrow> string \<Rightarrow> string \<Rightarrow> string \<Rightarrow> string \<Rightarrow> py_error + 'c frame"
  stock_hk_index_daily_em :: "string \<Rightarrow> py_error + 'c frame"
  index_us_stock_sina :: "string \<Rightarrow> py_error + 'c frame"
  stock_zh_index_daily_em :: "string \<Rightarrow> py_error + 'c frame"

text \<open>The requests a fetch sends, in order: each adapter returns them beside its result.\<close>

datatype upstream_call =
    IndexDaily string string string
  | FundEtfHistEm string string string string string
  | StockHkIndexDailyEm string
  | IndexUsStockSina string
  | StockZhIndexDailyEm string

text \<open>\<open>TushareClient.get_instance\<close>, with the class attribute \<open>_instance\<close> passed in; the value
  returned is also the new \<open>_instance\<close>.\<close>

definition get_instance :: "'c providers \<Rightarrow> pro_client option \<Rightarrow> pro_client option" where
  "get_instance env inst =
     (if inst = None \<and> TUSHARE_TOKEN env \<noteq> [] then
        (case pro_api env of Inl e \<Rightarrow> None | Inr p \<Rightarrow> Some p)
      else inst)"

text \<open>\<open>try: ... except Exception: return None\<close> around a body.\<close>

definition try_except :: "py_error + 'a option \<Rightarrow> py_error + 'a option" where
  "try_except body = (case body of Inl e \<Rightarrow> Inr None | Inr r \<Rightarrow> Inr r)"

text \<open>\<open>if metrics: metrics["source"] = s\<close>.\<close>

definition set_source :: "string \<Rightarrow> metrics option \<Rightarrow> metrics option" where
  "set_source s metrics = map_option (\<lambda>m. m\<lparr>source := Some s\<rparr>) metrics"

fun all_or_raise :: "(py_error + 'a) list \<Rightarrow> py_error + 'a list" where
  "all_or_raise [] = Inr []"
| "all_or_raise (x # xs) =
     (case x of
        Inl e \<Rightarrow> Inl e
      | Inr v \<Rightarrow> (case all_or_raise xs of Inl e \<Rightarrow> Inl e | Inr vs \<Rightarrow> Inr (v # vs)))"

definition fetch_zhonggai_tushare ::
  "'c pandas \<Rightarrow> 'c providers \<Rightarrow> timestamp \<Rightarrow> pro_client \<Rightarrow> upstream_call list \<times> (py_error + metrics option)" where
  "fetch_zhonggai_tushare pd env now pro =
     (let end_date = strftime pd ''%Y%m%d'' now;
          start_date = strftime pd ''%Y%m%d'' (minus_years pd now LOOKBACK_YEARS)
      in ([IndexDaily ''H30533.CSI'' start_date end_date],
          try_except
            (case index_daily env ''H30533.CSI'' start_date end_date of
               Inl e \<Rightarrow> Inl e
             | Inr df \<Rightarrow>
                 if df_empty df then Inr None
                 else
                   (case column_of (columns df) ''trade_date'' ValueError of
                      Inl e \<Rightarrow> Inl e
                    | Inr ti \<Rightarrow>
                        let sorted_rows = sort_values pd ti (rows df);
                            cols = rename [(''trade_date'', ''date''), (''open'', ''open''),
                                           (''high'', ''high''), (''low'', ''low''),
                                           (''close'', ''close'')] (columns df)
                        in case column_of cols ''date'' ValueError of
                             Inl e \<Rightarrow> Inl e
                           | Inr di \<Rightarrow>
                               (case all_or_raise
                                       (map (\<lambda>r. to_datetime_format pd (cell_at r di)) sorted_rows) of
                                  Inl e \<Rightarrow> Inl e
                                | Inr dates \<Rightarrow>
                                    (case column_of cols ''close'' TypeError of
                                       Inl e \<Rightarrow> Inl e
                                     | Inr ci \<Rightarrow>
                                         (case column_of cols ''high'' TypeError of
                                            Inl e \<Rightarrow> Inl e
                                          | Inr hi \<Rightarrow>
                                              (case column_of cols ''low'' TypeError of
                                                 Inl e \<Rightarrow> Inl e
                                               | Inr li \<Rightarrow>
                                                   let series =
                                                     filter (\<lambda>r. close r \<noteq> None)
                                                       (map (\<lambda>(d, r).
                                                               \<lparr>date = d,
                                                                close = to_numeric pd (cell_at r ci),
                                                                high = to_numeric pd (cell_at r hi),
                                                                low = to_numeric pd (cell_at r li)\<rparr>)
                                                          (zip dates sorted_rows))
                                                   in if series = [] then Inr None
                                                      else
                                                        (case extract_metrics (strftime pd ''%Y-%m-%d'') series of
                                                           Inl e \<Rightarrow> Inl e
                                                         | Inr metrics \<Rightarrow>
                                                             Inr (set_source ''Tushare'' metrics))))))))))"

definition fetch_zhonggai_etf ::
  "'c pandas \<Rightarrow> 'c providers \<Rightarrow> timestamp \<Rightarrow> upstream_call list \<times> (py_error + metrics option)" where
  "fetch_zhonggai_etf pd env now =
     ([FundEtfHistEm ''513050'' ''daily'' ''20190101'' ''20261231'' ''qfq''],
      try_except
        (case fund_etf_hist_em env ''513050'' ''daily'' ''20190101'' ''20261231'' ''qfq'' of
           Inl e \<Rightarrow> Inl e
         | Inr df \<Rightarrow>
             if df_empty df then Inr None
             else
               let cols = map strip (columns df);
                   cols = rename [(riqi, ''date''), (kaipan, ''open''), (shoupan, ''close''),
                                  (zuigao, ''high''), (zuidi, ''low'')] cols
               in case clean_dataframe pd now (df\<lparr>columns := cols\<rparr>) of
                    Inl e \<Rightarrow> Inl e
                  | Inr series \<Rightarrow>
                      if series = [] then Inr None
                      else
                        (case extract_metrics (strftime pd ''%Y-%m-%d'') series of
                           Inl e \<Rightarrow> Inl e
                         | Inr metrics \<Rightarrow> Inr (set_source ''ETF'' metrics))))"

definition fetch_hongkong_index ::
  "'c pandas \<Rightarrow> 'c providers \<Rightarrow> timestamp \<Rightarrow> string \<Rightarrow> upstream_call list \<times> (py_error + metrics option)" where
  "fetch_hongkong_index pd env now code =
     (let hk_code = replace ''hk'' [] code
      in ([StockHkIndexDailyEm hk_code],
          try_except
            (case stock_hk_index_daily_em env hk_code of
               Inl e \<Rightarrow> Inl e
             | Inr df \<Rightarrow>
                 if df_empty df then Inr None
                 else
                   let cols = map (\<lambda>c. strip (lower c)) (columns df);
                       cols = (if ''time'' \<in> set cols then rename [(''time'', ''date'')] cols else cols);
                       cols = (if ''latest'' \<in> set cols then rename [(''latest'', ''close'')] cols else cols)
                   in case clean_dataframe pd now (df\<lparr>columns := cols\<rparr>) of
                        Inl e \<Rightarrow> Inl e
                      | Inr series \<Rightarrow> extract_metrics (strftime pd ''%Y-%m-%d'') series)))"

definition fetch_us_index ::
  "'c pandas \<Rightarrow> 'c providers \<Rightarrow> timestamp \<Rightarrow> string \<Rightarrow> upstream_call list \<times> (py_error + metrics option)" where
  "fetch_us_index pd env now code =
     (let symbol = replace ''gb.'' [] code;
          symbol = (if symbol = ''INX'' then ''.INX''
                    else if symbol = ''NDX'' then ''.NDX''
                    else symbol)
      in ([IndexUsStockSina symbol],
          try_except
            (case index_us_stock_sina env symbol of
               Inl e \<Rightarrow> Inl e
             | Inr df \<Rightarrow>
                 (case clean_dataframe pd now df of
                    Inl e \<Rightarrow> Inl e
                  | Inr series \<Rightarrow> extract_metrics (strftime pd ''%Y-%m-%d'') series))))"

definition fetch_a_share_index ::
  "'c pandas \<Rightarrow> 'c providers \<Rightarrow> timestamp \<Rightarrow> string \<Rightarrow> upstream_call list \<times> (py_error + metrics option)" where
  "fetch_a_share_index pd env now code =
     ([StockZhIndexDailyEm code],
      try_except
        (case stock_zh_index_daily_em env code of
           Inl e \<Rightarrow> Inl e
         | Inr df \<Rightarrow>
             (case clean_dataframe pd now df of
                Inl e \<Rightarrow> Inl e
              | Inr series \<Rightarrow> extract_metrics (strftime pd ''%Y-%m-%d'') series)))"

section \<open>The orchestrator\<close>

text \<open>
  \<open>fetch_index_data\<close>, without the cache decorator. A callee that raised would end the
  body; the body's own \<open>try/except\<close> then returns \<open>None\<close>. The truth test \<open>if result\<close> holds
  for every metrics dict, which is never empty.
\<close>

definition fetch_index_data ::
  "'c pandas \<Rightarrow> 'c providers \<Rightarrow> timestamp \<Rightarrow> pro_client option \<Rightarrow> string \<Rightarrow> string
     \<Rightarrow> upstream_call list \<times> (py_error + metrics option)" where
  "fetch_index_data pd env now inst name symbol =
     (case
        (if name = zhonggai_hulian then
           (case get_instance env inst of
              Some pro \<Rightarrow>
                (case fetch_zhonggai_tushare pd env now pro of
                   (calls, Inl e) \<Rightarrow> (calls, Inl e)
                 | (calls, Inr (Some result)) \<Rightarrow> (calls, Inr (Some result))
                 | (calls, Inr None) \<Rightarrow>
                     (case fetch_zhonggai_etf pd env now of
                        (calls', r) \<Rightarrow> (calls @ calls', r)))
            | None \<Rightarrow> fetch_zhonggai_etf pd env now)
         else if startswith symbol ''hk'' then fetch_hongkong_index pd env now symbol
         else if startswith symbol ''gb'' then fetch_us_index pd env now symbol
         else fetch_a_share_index pd env now symbol)
      of (calls, body) \<Rightarrow> (calls, try_except body))"

text \<open>The answer a provider gave to a request of the log.\<close>

definition answer :: "'c providers \<Rightarrow> upstream_call \<Rightarrow> py_error + 'c frame" where
  "answer env c =
     (case c of
        IndexDaily ts_code start_date end_date \<Rightarrow> index_daily env ts_code start_date end_date
      | FundEtfHistEm symbol period start_date end_date adjust \<Rightarrow>
          fund_etf_hist_em env symbol period start_date end_date adjust
      | StockHkIndexDailyEm symbol \<Rightarrow> stock_hk_index_daily_em env symbol
      | IndexUsStockSina symbol \<Rightarrow> index_us_stock_sina env symbol
      | StockZhIndexDailyEm symbol \<Rightarrow> stock_zh_index_daily_em env symbol)"

text \<open>
  The normalisation each adapter applies to the table it received, by the request that
  brought the table: the column map, date and number parsing of \<open>fetch_zhonggai_tushare\<close>;
  the labels of \<open>fetch_zhonggai_etf\<close> and of \<open>fetch_hongkong_index\<close> followed by the
  shared routine; the shared routine alone in the other two adapters.
\<close>

definition tushare_series :: "'c pandas \<Rightarrow> 'c frame \<Rightarrow> py_error + row list" where
  "tushare_series pd df =
     (case column_of (columns df) ''trade_date'' ValueError of
        Inl e \<Rightarrow> Inl e
      | Inr ti \<Rightarrow>
          let sorted_rows = sort_values pd ti (rows df);
              cols = rename [(''trade_date'', ''date''), (''open'', ''open''),
                             (''high'', ''high''), (''low'', ''low''),
                             (''close'', ''close'')] (columns df)
          in case column_of cols ''date'' ValueError of
               Inl e \<Rightarrow> Inl e
             | Inr di \<Rightarrow>
                 (case all_or_raise
                         (map (\<lambda>r. to_datetime_format pd (cell_at r di)) sorted_rows) of
                    Inl e \<Rightarrow> Inl e
                  | Inr dates \<Rightarrow>
                      (case column_of cols ''close'' TypeError of
                         Inl e \<Rightarrow> Inl e
                       | Inr ci \<Rightarrow>
                           (case column_of cols ''high'' TypeError of
                              Inl e \<Rightarrow> Inl e
                            | Inr hi \<Rightarrow>
                                (case column_of cols ''low'' TypeError of
                                   Inl e \<Rightarrow> Inl e
                                 | Inr li \<Rightarrow>
                                     Inr (filter (\<lambda>r. close r \<noteq> None)
                                            (map (\<lambda>(d, r).
                                                    \<lparr>date = d,
                                                     close = to_numeric pd (cell_at r ci),
                                                     high = to_numeric pd (cell_at r hi),
                                                     low = to_numeric pd (cell_at r li)\<rparr>)
                                               (zip dates sorted_rows))))))))"

definition series_of :: "'c pandas \<Rightarrow> timestamp \<Rightarrow> upstream_call \<Rightarrow> 'c frame \<Rightarrow> py_error + row list" where
  "series_of pd now c df =
     (case c of
        IndexDaily ts_code start_date end_date \<Rightarrow> tushare_series pd df
      | FundEtfHistEm symbol period start_date end_date adjust \<Rightarrow>
          (let cols = map strip (columns df);
               cols = rename [(riqi, ''date''), (kaipan, ''open''), (shoupan, ''close''),
                              (zuigao, ''high''), (zuidi, ''low'')] cols
           in clean_dataframe pd now (df\<lparr>columns := cols\<rparr>))
      | StockHkIndexDailyEm symbol \<Rightarrow>
          (let cols = map (\<lambda>c. strip (lower c)) (columns df);
               cols = (if ''time'' \<in> set cols then rename [(''time'', ''date'')] cols else cols);
               cols = (if ''latest'' \<in> set cols then rename [(''latest'', ''close'')] cols else cols)
           in clean_dataframe pd now (df\<lparr>columns := cols\<rparr>))
      | IndexUsStockSina symbol \<Rightarrow> clean_dataframe pd now df
      | StockZhIndexDailyEm symbol \<Rightarrow> clean_dataframe pd now df)"

text \<open>
  A request that brought no metrics: it raised, or the normalisation of its table raised,
  or the extractor raised on the series or returned \<open>None\<close>, as it does on the empty
  series.
\<close>

abbreviation failed :: "'c pandas \<Rightarrow> 'c providers \<Rightarrow> timestamp \<Rightarrow> upstream_call \<Rightarrow> bool" where
  "failed pd env now c \<equiv>
     (case answer env c of
        Inl e \<Rightarrow> True
      | Inr df \<Rightarrow>
          (case series_of pd now c df of
             Inl e \<Rightarrow> True
           | Inr series \<Rightarrow>
               (case extract_metrics (strftime pd ''%Y-%m-%d'') series of
                  Inl e \<Rightarrow> True
                | Inr metrics \<Rightarrow> metrics = None)))"

text \<open>A table none of whose cells reads as a date inside the lookback window.\<close>

abbreviation no_recent_date :: "'c pandas \<Rightarrow> timestamp \<Rightarrow> 'c frame \<Rightarrow> bool" where
  "no_recent_date pd now df \<equiv>
     \<forall>r \<in> set (rows df). \<forall>i. case to_datetime pd (cell_at r i) of
                                None \<Rightarrow> True
                              | Some t \<Rightarrow> t < minus_years pd now LOOKBACK_YEARS"

section \<open>Persisted state\<close>

text \<open>
  The dict \<open>DataManager.load\<close> returns and the session keeps: three dicts keyed by index
  name. Thresholds are numbers; a journal entry is a dict with the keys \<open>date\<close> and
  \<open>content\<close>, both strings.
\<close>

record journal_entry =
  date' :: string
  content :: string

record db =
  supports :: "string \<rightharpoonup> real"
  atmospheres :: "string \<rightharpoonup> real"
  notes' :: "string \<rightharpoonup> journal_entry list"

text \<open>
  What \<open>load\<close> finds on disk. A parsed document is an object; each of the three keys
  \<open>supports\<close>, \<open>atmospheres\<close>, \<open>notes\<close> is absent, or holds an object (a dict after
  \<open>json.load\<close>), or holds a value \<open>dict.update\<close> rejects with an exception (a number,
  a boolean, \<open>null\<close>). Values \<open>dict.update\<close> would read as a sequence of pairs (arrays,
  strings) and entries of another shape than the record above are outside the model.
\<close>

datatype 'v saved_section = Mapping "string \<rightharpoonup> 'v" | NotMapping

record saved_doc =
  saved_supports :: "real saved_section option"
  saved_atmospheres :: "real saved_section option"
  saved_notes :: "journal_entry list saved_section option"

datatype file_state =
    Absent \<comment> \<open>no file\<close>
  | Unreadable \<comment> \<open>a file that cannot be opened\<close>
  | Malformed \<comment> \<open>a file that is not JSON\<close>
  | NotObject \<comment> \<open>a JSON document that is not an object\<close>
  | Document saved_doc

definition get_all_index_names :: "string list" where
  "get_all_index_names = concat (map (\<lambda>(title, group). map fst group) INDEX_GROUPS)"

definition default_data :: db where
  "default_data =
     \<lparr>supports = map_of (map (\<lambda>name. (name, 3000)) get_all_index_names),
      atmospheres = map_of (map (\<lambda>name. (name, 4000)) get_all_index_names),
      notes' = map_of (map (\<lambda>name. (name, [])) get_all_index_names)\<rparr>"

text \<open>The three steps of \<open>load\<close> that look at the disk, each with the exception it can
  raise: \<open>os.path.exists\<close>, \<open>open\<close>, \<open>json.load\<close>.\<close>

datatype parsed = NoObject | Object saved_doc

definition path_exists :: "file_state \<Rightarrow> bool" where
  "path_exists file \<longleftrightarrow> file \<noteq> Absent"

definition open_file :: "file_state \<Rightarrow> py_error + file_state" where
  "open_file file =
     (case file of
        Absent \<Rightarrow> Inl OSError
      | Unreadable \<Rightarrow> Inl OSError
      | _ \<Rightarrow> Inr file)"

definition json_load :: "file_state \<Rightarrow> py_error + parsed" where
  "json_load f =
     (case f of
        Document saved \<Rightarrow> Inr (Object saved)
      | NotObject \<Rightarrow> Inr NoObject
      | Malformed \<Rightarrow> Inl ValueError
      | _ \<Rightarrow> Inl OSError)"

text \<open>\<open>if key in saved: default_data[key].update(saved[key])\<close>, for one key.\<close>

definition update_from :: "'v saved_section option \<Rightarrow> (string \<rightharpoonup> 'v) \<Rightarrow> py_error + (string \<rightharpoonup> 'v)" where
  "update_from saved d =
     (case saved of
        None \<Rightarrow> Inr d
      | Some (Mapping m) \<Rightarrow> Inr (d ++ m)
      | Some NotMapping \<Rightarrow> Inl TypeError)"

text \<open>
  The body of the \<open>try\<close> in \<open>DataManager.load\<close>: the dict as the body leaves it, and how
  the body ends. The loop over the keys of \<open>default_data\<close> updates the dicts in place, so
  what was merged before an exception stays merged. On a document that is not an object
  the loop raises or finds none of its keys, and nothing is merged either way.
\<close>

definition load_try :: "file_state \<Rightarrow> db \<Rightarrow> db \<times> (py_error + unit)" where
  "load_try file data =
     (case open_file file of
        Inl e \<Rightarrow> (data, Inl e)
      | Inr f \<Rightarrow>
          (case json_load f of
             Inl e \<Rightarrow> (data, Inl e)
           | Inr NoObject \<Rightarrow> (data, Inl TypeError)
           | Inr (Object saved) \<Rightarrow>
               (case update_from (saved_supports saved) (supports data) of
                  Inl e \<Rightarrow> (data, Inl e)
                | Inr s \<Rightarrow>
                    (case update_from (saved_atmospheres saved) (atmospheres data) of
                       Inl e \<Rightarrow> (data\<lparr>supports := s\<rparr>, Inl e)
                     | Inr a \<Rightarrow>
                         (case update_from (saved_notes saved) (notes' data) of
                            Inl e \<Rightarrow> (data\<lparr>supports := s, atmospheres := a\<rparr>, Inl e)
                          | Inr n \<Rightarrow>
                              (\<lparr>supports = s, atmospheres = a, notes' = n\<rparr>, Inr ()))))))"

text \<open>
  \<open>DataManager.load\<close>: the \<open>except\<close> clause shows a warning and falls through to the
  \<open>return\<close>. The warning is not modelled.
\<close>

definition load :: "file_state \<Rightarrow> py_error + db" where
  "load file =
     (if path_exists file then
        (case load_try file default_data of
           (data, Inl e) \<Rightarrow> Inr data
         | (data, Inr u) \<Rightarrow> Inr data)
      else Inr default_data)"

text \<open>The thresholds \<open>UIComponents._render_parameters\<close> reads for an index.\<close>

definition read_thresholds :: "db \<Rightarrow> string \<Rightarrow> real \<times> real" where
  "read_thresholds data name =
     (let cur_sup = (case supports data name of None \<Rightarrow> 3000 | Some v \<Rightarrow> v);
          cur_atm = (case atmospheres data name of None \<Rightarrow> cur_sup * 1.3 | Some v \<Rightarrow> v)
      in (cur_sup, cur_atm))"

text \<open>
  \<open>DataManager.save\<close>: the write succeeds, or \<open>open\<close> raises and the file stays as it
  was, or \<open>json.dump\<close> raises after \<open>open\<close> has truncated the file. The exception is
  caught and shown.
\<close>

datatype write_outcome = Written | OpenFailed | DumpFailed

definition dump :: "db \<Rightarrow> saved_doc" where
  "dump data =
     \<lparr>saved_supports = Some (Mapping (supports data)),
      saved_atmospheres = Some (Mapping (atmospheres data)),
      saved_notes = Some (Mapping (notes' data))\<rparr>"

definition save :: "write_outcome \<Rightarrow> db \<Rightarrow> file_state \<Rightarrow> file_state" where
  "save outcome data file =
     (case outcome of
        Written \<Rightarrow> Document (dump data)
      | OpenFailed \<Rightarrow> file
      | DumpFailed \<Rightarrow> Malformed)"

section \<open>The journal\<close>

text \<open>
  \<open>list.sort(key=..., reverse=True)\<close>: CPython reverses the list, sorts it with its stable
  sort, and reverses the result.
\<close>

definition sort_reverse :: "('a \<Rightarrow> 'k::linorder) \<Rightarrow> 'a list \<Rightarrow> 'a list" where
  "sort_reverse key xs = rev (sort_key key (rev xs))"

text \<open>
  The form handler of \<open>UIComponents._render_notes_section\<close>, on the session's \<open>db\<close> and the
  file. \<open>date_input\<close> is \<open>str(date_input)\<close>, an ISO date.
\<close>

definition add_note ::
  "write_outcome \<Rightarrow> bool \<Rightarrow> string \<Rightarrow> string \<Rightarrow> string \<Rightarrow> db \<times> file_state \<Rightarrow> db \<times> file_state" where
  "add_note outcome submitted name date_input content_input state =
     (case state of (data, file) \<Rightarrow>
        if submitted \<and> strip content_input \<noteq> [] then
          let existing = (case notes' data name of None \<Rightarrow> [] | Some entries \<Rightarrow> entries);
              appended = existing @ [\<lparr>date' = date_input, content = strip content_input\<rparr>];
              data = data\<lparr>notes' := (notes' data)(name \<mapsto> sort_reverse date' appended)\<rparr>
          in (data, save outcome data file)
        else (data, file))"

section \<open>A concrete instance of the library\<close>

text \<open>
  Used to run the model on concrete tables. Cells are integers, a negative cell is one
  the parsers reject; time is counted in days, a year has 365 of them; three days have a
  printed form.
\<close>

definition sample_pandas :: "int pandas" where
  "sample_pandas =
     \<lparr>to_datetime = (\<lambda>c. case c of None \<Rightarrow> None | Some n \<Rightarrow> if 0 \<le> n then Some n else None),
      to_numeric = (\<lambda>c. case c of None \<Rightarrow> None
                          | Some n \<Rightarrow> if 0 \<le> n then Some (real_of_int n) else None),
      to_datetime_format = (\<lambda>c. case c of None \<Rightarrow> Inr None
                          | Some n \<Rightarrow> if 0 \<le> n then Inr (Some n) else Inl ValueError),
      strftime = (\<lambda>fmt t. if t = 1900 then ''day 1900'' else if t = 1950 then ''day 1950''
                           else if t = 2000 then ''day 2000'' else ''another day''),
      minus_years = (\<lambda>t n. t - 365 * int n),
      sort_values = (\<lambda>i. sort_key (\<lambda>r. case cell_at r i of None \<Rightarrow> 0 | Some n \<Rightarrow> n))\<rparr>"

text \<open>
  Providers that answer every request of the configured indices with a two-row table,
  and any other request with an exception.
\<close>

definition sample_providers :: "int providers" where
  "sample_providers =
     \<lparr>TUSHARE_TOKEN = ''secret'',
      pro_api = Inr ProClient,
      index_daily = (\<lambda>ts_code start_date end_date.
        Inr \<lparr>columns = [''ts_code'', ''trade_date'', ''close'', ''open'', ''high'', ''low''],
             rows = [[0, 2000, 8, 8, 9, 7], [0, 1950, 7, 7, 8, 6]]\<rparr>),
      fund_etf_hist_em = (\<lambda>symbol period start_date end_date adjust.
        Inr \<lparr>columns = [riqi, kaipan, shoupan, zuigao, zuidi],
             rows = [[1950, 1, 2, 3, 1], [2000, 2, 3, 4, 2]]\<rparr>),
      stock_hk_index_daily_em = (\<lambda>symbol.
        if symbol \<in> set [''HSI'', ''HSTECH'', ''HSHCI'']
        then Inr \<lparr>columns = [''date'', ''open'', ''high'', ''low'', ''latest''],
                  rows = [[1950, 20, 22, 19, 21], [2000, 21, 25, 20, 24]]\<rparr>
        else Inl UpstreamError),
      index_us_stock_sina = (\<lambda>symbol.
        if symbol \<in> set [''.INX'', ''.NDX'']
        then Inr \<lparr>columns = [''date'', ''open'', ''high'', ''low'', ''close''],
                  rows = [[1950, 40, 44, 39, 42], [2000, 42, 43, 38, 41]]\<rparr>
        else Inl UpstreamError),
      stock_zh_index_daily_em = (\<lambda>symbol.
        if take 2 symbol \<in> set [''sh'', ''sz'']
        then Inr \<lparr>columns = [''date'', ''open'', ''close'', ''high'', ''low''],
                  rows = [[1950, 30, 31, 33, 29], [2000, 31, 32, 34, 30]]\<rparr>
        else Inl UpstreamError)\<rparr>"

section \<open>Properties of the extractor\<close>

lemma idxmax_None: "idxmax xs = None \<longleftrightarrow> (\<forall>x \<in> set xs. x = None)"
  by (induction xs rule: idxmax.induct) (auto split: option.splits)

lemma idxmax_Some:
  "idxmax xs = Some (i, v) \<Longrightarrow>
     i < length xs \<and> xs ! i = Some v \<and> (\<forall>w. Some w \<in> set xs \<longrightarrow> w \<le> v) \<and>
     (\<forall>j < i. xs ! j \<noteq> Some v)"
proof (induction xs arbitrary: i v rule: idxmax.induct)
  case 1
  then show ?case by simp
next
  case (2 xs)
  then obtain j where j: "idxmax xs = Some (j, v)" "i = Suc j" by auto
  from "2.IH"[OF j(1)] j(2) show ?case
    by (auto simp: nth_Cons split: nat.splits)
next
  case (3 u xs)
  show ?case
  proof (cases "idxmax xs")
    case None
    with "3.prems" have "i = 0" "v = u" by auto
    moreover from None have "\<forall>x \<in> set xs. x = None" by (simp add: idxmax_None)
    ultimately show ?thesis by auto
  next
    case (Some p)
    obtain j w where p: "p = (j, w)" by (cases p)
    note ih = "3.IH"[OF Some[unfolded p]]
    show ?thesis
    proof (cases "u < w")
      case True
      with "3.prems" Some p have "i = Suc j" "v = w" by auto
      with ih True show ?thesis
        by (auto simp: nth_Cons split: nat.splits)
    next
      case False
      with "3.prems" Some p have "i = 0" "v = u" by auto
      with ih False show ?thesis by fastforce
    qed
  qed
qed

lemma idxmin_None: "idxmin xs = None \<longleftrightarrow> (\<forall>x \<in> set xs. x = None)"
  by (induction xs rule: idxmin.induct) (auto split: option.splits)

lemma idxmin_Some:
  "idxmin xs = Some (i, v) \<Longrightarrow>
     i < length xs \<and> xs ! i = Some v \<and> (\<forall>w. Some w \<in> set xs \<longrightarrow> v \<le> w) \<and>
     (\<forall>j < i. xs ! j \<noteq> Some v)"
proof (induction xs arbitrary: i v rule: idxmin.induct)
  case 1
  then show ?case by simp
next
  case (2 xs)
  then obtain j where j: "idxmin xs = Some (j, v)" "i = Suc j" by auto
  from "2.IH"[OF j(1)] j(2) show ?case
    by (auto simp: nth_Cons split: nat.splits)
next
  case (3 u xs)
  show ?case
  proof (cases "idxmin xs")
    case None
    with "3.prems" have "i = 0" "v = u" by auto
    moreover from None have "\<forall>x \<in> set xs. x = None" by (simp add: idxmin_None)
    ultimately show ?thesis by auto
  next
    case (Some p)
    obtain j w where p: "p = (j, w)" by (cases p)
    note ih = "3.IH"[OF Some[unfolded p]]
    show ?thesis
    proof (cases "w < u")
      case True
      with "3.prems" Some p have "i = Suc j" "v = w" by auto
      with ih True show ?thesis
        by (auto simp: nth_Cons split: nat.splits)
    next
      case False
      with "3.prems" Some p have "i = 0" "v = u" by auto
      with ih False show ?thesis by fastforce
    qed
  qed
qed

text \<open>What the extractor returns on a table with at least one row, one high and one
  low that are numbers, and no missing date.\<close>

lemma extract_metrics_Some:
  assumes ne: "df \<noteq> []"
    and dates: "map date df = map Some ds"
    and hi: "idxmax (map high df) = Some (i, h)"
    and lo: "idxmin (map low df) = Some (k, l)"
  shows "extract_metrics fmt df =
     Inr (Some \<lparr>cur = close (last df), hv = h, hd' = fmt (ds ! i),
                lv = l, ld = fmt (ds ! k), source = None\<rparr>)"
proof -
  from idxmax_Some[OF hi] have i: "i < length df" by simp
  from idxmin_Some[OF lo] have k: "k < length df" by simp
  have len: "length ds = length df"
    using dates by (metis length_map)
  have "date (df ! i) = Some (ds ! i)"
    using i len dates by (metis nth_map)
  moreover have "date (df ! k) = Some (ds ! k)"
    using k len dates by (metis nth_map)
  ultimately show ?thesis
    using ne hi lo by (simp add: extract_metrics_def strftime_at_def)
qed

lemma first_position_earliest:
  assumes dates: "map date df = map Some ds" and srt: "sorted ds"
    and i: "i < length df" and first: "\<forall>j < i. f (df ! j) \<noteq> Some v"
    and at: "f (df ! i) = Some v"
  shows "Min {d. \<exists>r \<in> set df. f r = Some v \<and> date r = Some d} = ds ! i"
proof (rule Min_eqI)
  have "{d. \<exists>r \<in> set df. f r = Some v \<and> date r = Some d} \<subseteq> set ds"
  proof
    fix d assume "d \<in> {d. \<exists>r \<in> set df. f r = Some v \<and> date r = Some d}"
    then obtain r where "r \<in> set df" "date r = Some d" by auto
    then have "Some d \<in> set (map date df)" by force
    then show "d \<in> set ds" using dates by auto
  qed
  then show "finite {d. \<exists>r \<in> set df. f r = Some v \<and> date r = Some d}"
    by (rule finite_subset) simp
next
  have len: "length ds = length df"
    using dates by (metis length_map)
  fix d assume "d \<in> {d. \<exists>r \<in> set df. f r = Some v \<and> date r = Some d}"
  then obtain r where r: "r \<in> set df" "f r = Some v" "date r = Some d" by auto
  then obtain j where j: "j < length df" "df ! j = r" by (auto simp: in_set_conv_nth)
  with first r have "i \<le> j" by (metis not_le_imp_less)
  moreover have "date (df ! j) = Some (ds ! j)"
    using j len dates by (metis nth_map)
  ultimately show "ds ! i \<le> d"
    using srt j r len by (simp add: sorted_nth_mono)
next
  have len: "length ds = length df"
    using dates by (metis length_map)
  have "date (df ! i) = Some (ds ! i)"
    using i len dates by (metis nth_map)
  with i at show "ds ! i \<in> {d. \<exists>r \<in> set df. f r = Some v \<and> date r = Some d}"
    by (auto intro!: bexI[of _ "df ! i"])
qed

text \<open>
  C1. On a non-empty series whose dates ascend, the extractor's \<open>hv\<close> is the largest
  \<open>high\<close> of the series and \<open>hd\<close> is the earliest date of a row reaching it; \<open>lv\<close> is the
  smallest \<open>low\<close> and \<open>ld\<close> the earliest date of a row reaching it. Rows whose high (low)
  is NaN are skipped, as \<open>idxmax\<close> (\<open>idxmin\<close>) skips them; the extractor produces
  metrics as soon as one high and one low are numbers.
\<close>

theorem extract_metrics_extrema:
  assumes "df \<noteq> []"
    and "map date df = map Some ds" and "sorted ds"
    and "\<exists>r \<in> set df. high r \<noteq> None" and "\<exists>r \<in> set df. low r \<noteq> None"
  shows "\<exists>m. extract_metrics fmt df = Inr (Some m) \<and>
           hv m = Max {h. \<exists>r \<in> set df. high r = Some h} \<and>
           hd' m = fmt (Min {d. \<exists>r \<in> set df. high r = Some (hv m) \<and> date r = Some d}) \<and>
           lv m = Min {l. \<exists>r \<in> set df. low r = Some l} \<and>
           ld m = fmt (Min {d. \<exists>r \<in> set df. low r = Some (lv m) \<and> date r = Some d})"
proof -
  from assms(4) have "idxmax (map high df) \<noteq> None"
    by (auto simp: idxmax_None)
  then obtain i h where hi: "idxmax (map high df) = Some (i, h)" by auto
  from assms(5) have "idxmin (map low df) \<noteq> None"
    by (auto simp: idxmin_None)
  then obtain k l where lo: "idxmin (map low df) = Some (k, l)" by auto
  let ?m = "\<lparr>cur = close (last df), hv = h, hd' = fmt (ds ! i),
             lv = l, ld = fmt (ds ! k), source = None\<rparr>"
  have ex: "extract_metrics fmt df = Inr (Some ?m)"
    using assms(1,2) hi lo by (rule extract_metrics_Some)
  from idxmax_Some[OF hi]
  have i: "i < length df" "high (df ! i) = Some h"
    and top: "\<forall>w. Some w \<in> set (map high df) \<longrightarrow> w \<le> h"
    and fi: "\<forall>j < i. high (df ! j) \<noteq> Some h"
    by auto
  from idxmin_Some[OF lo]
  have k: "k < length df" "low (df ! k) = Some l"
    and bot: "\<forall>w. Some w \<in> set (map low df) \<longrightarrow> l \<le> w"
    and fk: "\<forall>j < k. low (df ! j) \<noteq> Some l"
    by auto
  have fin: "finite {x. \<exists>r \<in> set df. g r = Some x}" for g :: "row \<Rightarrow> real option"
  proof -
    have "{x. \<exists>r \<in> set df. g r = Some x} \<subseteq> the ` g ` set df" by force
    then show ?thesis by (rule finite_subset) simp
  qed
  have "Max {x. \<exists>r \<in> set df. high r = Some x} = h"
  proof (rule Max_eqI)
    show "finite {x. \<exists>r \<in> set df. high r = Some x}" by (rule fin)
    show "h \<in> {x. \<exists>r \<in> set df. high r = Some x}"
      using i by (auto intro!: bexI[of _ "df ! i"])
    fix y assume "y \<in> {x. \<exists>r \<in> set df. high r = Some x}"
    then have "Some y \<in> set (map high df)" by force
    with top show "y \<le> h" by blast
  qed
  moreover have "Min {x. \<exists>r \<in> set df. low r = Some x} = l"
  proof (rule Min_eqI)
    show "finite {x. \<exists>r \<in> set df. low r = Some x}" by (rule fin)
    show "l \<in> {x. \<exists>r \<in> set df. low r = Some x}"
      using k by (auto intro!: bexI[of _ "df ! k"])
    fix y assume "y \<in> {x. \<exists>r \<in> set df. low r = Some x}"
    then have "Some y \<in> set (map low df)" by force
    with bot show "l \<le> y" by blast
  qed
  moreover have "Min {d. \<exists>r \<in> set df. high r = Some h \<and> date r = Some d} = ds ! i"
    using assms(2,3) i(1) fi i(2) by (rule first_position_earliest)
  moreover have "Min {d. \<exists>r \<in> set df. low r = Some l \<and> date r = Some d} = ds ! k"
    using assms(2,3) k(1) fk k(2) by (rule first_position_earliest)
  ultimately show ?thesis
    using ex by simp
qed

theorem extract_metrics_extrema_witness:
  "extract_metrics (\<lambda>t. if t = 1 then ''2024-01-02'' else if t = 2 then ''2024-01-03'' else ''2024-01-04'')
     [\<lparr>date = Some 1, close = Some 10, high = Some 12, low = Some 9\<rparr>,
      \<lparr>date = Some 2, close = Some 11, high = Some 12, low = Some 8\<rparr>,
      \<lparr>date = Some 3, close = Some 9, high = None, low = Some 8\<rparr>]
   = Inr (Some \<lparr>cur = Some 9, hv = 12, hd' = ''2024-01-02'', lv = 8, ld = ''2024-01-03'',
                source = None\<rparr>) \<and>
   (\<exists>m. extract_metrics (\<lambda>t. if t = 1 then ''2024-01-02'' else if t = 2 then ''2024-01-03'' else ''2024-01-04'')
     [\<lparr>date = Some 1, close = Some 10, high = Some 12, low = Some 9\<rparr>,
      \<lparr>date = Some 2, close = Some 11, high = Some 12, low = Some 8\<rparr>,
      \<lparr>date = Some 3, close = Some 9, high = None, low = Some 8\<rparr>] = Inr (Some m) \<and>
     hv m = Max {h. \<exists>r \<in> set [\<lparr>date = Some 1, close = Some 10, high = Some 12, low = Some 9\<rparr>,
      \<lparr>date = Some 2, close = Some 11, high = Some 12, low = Some 8\<rparr>,
      \<lparr>date = Some 3, close = Some 9, high = None, low = Some 8\<rparr>]. high r = Some h})"
proof -
  let ?df = "[\<lparr>date = Some 1, close = Some 10, high = Some 12, low = Some 9\<rparr>,
      \<lparr>date = Some 2, close = Some 11, high = Some 12, low = Some 8\<rparr>,
      \<lparr>date = Some 3, close = Some 9, high = None, low = Some (8::real)\<rparr>]"
  have a: "?df \<noteq> []" by simp
  have b: "map date ?df = map Some [1, 2, 3]" by simp
  have c: "sorted [1, 2, 3 :: int]" by simp
  have d: "\<exists>r \<in> set ?df. high r \<noteq> None" by simp
  have e: "\<exists>r \<in> set ?df. low r \<noteq> None" by simp
  from extract_metrics_extrema[OF a b c d e] have
    "\<exists>m. extract_metrics (\<lambda>t. if t = 1 then ''2024-01-02'' else if t = 2 then ''2024-01-03'' else ''2024-01-04'') ?df = Inr (Some m) \<and>
       hv m = Max {h. \<exists>r \<in> set ?df. high r = Some h}"
    by blast
  moreover have "extract_metrics (\<lambda>t. if t = 1 then ''2024-01-02'' else if t = 2 then ''2024-01-03'' else ''2024-01-04'') ?df
      = Inr (Some \<lparr>cur = Some 9, hv = 12, hd' = ''2024-01-02'', lv = 8, ld = ''2024-01-03'',
                source = None\<rparr>)"
    by (simp add: extract_metrics_def strftime_at_def)
  ultimately show ?thesis by blast
qed

text \<open>
  C4. On a non-empty series whose dates ascend, \<open>cur\<close> is the close of the last row, and
  the date of that row is the most recent date of the series.
\<close>

theorem extract_metrics_current:
  assumes "df \<noteq> []"
    and "map date df = map Some ds" and "sorted ds"
    and "\<exists>r \<in> set df. high r \<noteq> None" and "\<exists>r \<in> set df. low r \<noteq> None"
  shows "\<exists>m. extract_metrics fmt df = Inr (Some m) \<and>
           cur m = close (last df) \<and> date (last df) = Some (Max (set ds))"
proof -
  from assms(4) have "idxmax (map high df) \<noteq> None"
    by (auto simp: idxmax_None)
  then obtain i h where hi: "idxmax (map high df) = Some (i, h)" by auto
  from assms(5) have "idxmin (map low df) \<noteq> None"
    by (auto simp: idxmin_None)
  then obtain k l where lo: "idxmin (map low df) = Some (k, l)" by auto
  note ex = extract_metrics_Some[OF assms(1,2) hi lo, of fmt]
  from assms(1,2) have ne: "ds \<noteq> []" by auto
  have "last (map date df) = last (map Some ds)"
    using assms(2) by simp
  then have last_date: "date (last df) = Some (last ds)"
    using assms(1) ne by (simp add: last_map)
  have "Max (set ds) = last ds"
  proof (rule Max_eqI)
    show "finite (set ds)" by simp
    show "last ds \<in> set ds" using ne by simp
    fix y assume "y \<in> set ds"
    then obtain j where j: "j < length ds" "ds ! j = y"
      by (auto simp: in_set_conv_nth)
    with assms(3) have "ds ! j \<le> ds ! (length ds - 1)"
      by (intro sorted_nth_mono) auto
    with j ne show "y \<le> last ds" by (simp add: last_conv_nth)
  qed
  with ex last_date show ?thesis by simp
qed

theorem extract_metrics_current_witness:
  "(\<exists>m. extract_metrics (\<lambda>t. if t = 1 then ''2024-01-02'' else ''2024-01-03'')
     [\<lparr>date = Some 1, close = Some 10, high = Some 12, low = Some 9\<rparr>,
      \<lparr>date = Some 2, close = Some 11, high = Some 12, low = Some 8\<rparr>] = Inr (Some m) \<and>
     cur m = Some 11) \<and>
   date (last [\<lparr>date = Some 1, close = Some 10, high = Some 12, low = Some 9\<rparr>,
      \<lparr>date = Some 2, close = Some 11, high = Some 12, low = Some (8::real)\<rparr>]) = Some (Max (set [1, 2]))"
proof -
  let ?df = "[\<lparr>date = Some 1, close = Some 10, high = Some 12, low = Some 9\<rparr>,
      \<lparr>date = Some 2, close = Some 11, high = Some 12, low = Some (8::real)\<rparr>]"
  have a: "?df \<noteq> []" by simp
  have b: "map date ?df = map Some [1, 2]" by simp
  have c: "sorted [1, 2 :: int]" by simp
  have d: "\<exists>r \<in> set ?df. high r \<noteq> None" by simp
  have e: "\<exists>r \<in> set ?df. low r \<noteq> None" by simp
  from extract_metrics_current[OF a b c d e, of "\<lambda>t. if t = 1 then ''2024-01-02'' else ''2024-01-03''"]
  show ?thesis by simp
qed

section \<open>Properties of the cleaning routine\<close>

lemma column_of_Inr:
  assumes "column_of cols c dup = Inr i"
  shows "i < length cols \<and> cols ! i = c"
proof -
  from assms have "positions c cols = [i]"
    by (auto simp: column_of_def split: list.splits)
  then have "i \<in> set (filter (\<lambda>i. cols ! i = c) [0..<length cols])"
    by (simp add: positions_def)
  then show ?thesis by simp
qed

text \<open>The shape of every successful result: a row-by-row image of the input rows that
  pass the two filters, in the order of the input.\<close>

lemma date_rename:
  assumes "dc \<in> set [''date'', ''time'', riqi]" and "c \<in> {''close'', ''high'', ''low''}"
  shows "i < length cols \<Longrightarrow> rename [(dc, ''date'')] cols ! i = c \<longleftrightarrow> cols ! i = c"
    and "c \<in> set (rename [(dc, ''date'')] cols) \<longleftrightarrow> c \<in> set cols"
proof -
  define F where "F x = (case map_of [(dc, ''date'')] x of None \<Rightarrow> x | Some c' \<Rightarrow> c')" for x
  have ne: "dc \<noteq> c" "''date'' \<noteq> c"
    using assms by (auto simp: riqi_def)
  have F: "F x = c \<longleftrightarrow> x = c" for x
    using ne by (auto simp: F_def)
  have ren: "rename [(dc, ''date'')] cols = map F cols"
    by (simp add: rename_def F_def)
  show "i < length cols \<Longrightarrow> rename [(dc, ''date'')] cols ! i = c \<longleftrightarrow> cols ! i = c"
    by (simp add: ren F)
  have "c \<in> set (map F cols) \<longleftrightarrow> (\<exists>x \<in> set cols. F x = c)"
    by auto
  then show "c \<in> set (rename [(dc, ''date'')] cols) \<longleftrightarrow> c \<in> set cols"
    by (simp add: ren F)
qed

lemma clean_dataframe_Inr:
  assumes "clean_dataframe pd now df = Inr out"
  shows "\<exists>di ci hi li.
           di < length (columns df) \<and>
           lower (columns df ! di) \<in> {''date'', ''time'', riqi} \<and>
           ci < length (columns df) \<and> lower (columns df ! ci) = ''close'' \<and>
           (if ''high'' \<in> set (map lower (columns df))
            then hi < length (columns df) \<and> lower (columns df ! hi) = ''high'' else hi = ci) \<and>
           (if ''low'' \<in> set (map lower (columns df))
            then li < length (columns df) \<and> lower (columns df ! li) = ''low'' else li = ci) \<and>
           out = map (\<lambda>r. \<lparr>date = to_datetime pd (cell_at r di),
                            close = to_numeric pd (cell_at r ci),
                            high = to_numeric pd (cell_at r hi),
                            low = to_numeric pd (cell_at r li)\<rparr>)
                   (filter (\<lambda>r. (case to_datetime pd (cell_at r di) of
                                    None \<Rightarrow> False
                                  | Some t \<Rightarrow> minus_years pd now LOOKBACK_YEARS \<le> t) \<and>
                                 to_numeric pd (cell_at r ci) \<noteq> None)
                      (rows df))"
proof -
  define lowered where "lowered = map lower (columns df)"
  define cols where "cols = (case find (\<lambda>c. c \<in> set [''date'', ''time'', riqi]) lowered of
                    None \<Rightarrow> lowered
                  | Some date_col \<Rightarrow> rename [(date_col, ''date'')] lowered)"
  from assms obtain di where di: "column_of cols ''date'' ValueError = Inr di"
    unfolding clean_dataframe_def Let_def cols_def lowered_def
    by (auto split: sum.splits)
  from assms di obtain ci where ci: "column_of cols ''close'' TypeError = Inr ci"
    unfolding clean_dataframe_def Let_def cols_def lowered_def
    by (auto split: sum.splits)
  from assms di ci obtain hi where
    hi: "(if ''high'' \<in> set cols then column_of cols ''high'' TypeError else Inr ci) = Inr hi"
    unfolding clean_dataframe_def Let_def cols_def lowered_def
    by (simp split: sum.splits)
  from assms di ci hi obtain li where
    li: "(if ''low'' \<in> set cols then column_of cols ''low'' TypeError else Inr ci) = Inr li"
    unfolding clean_dataframe_def Let_def cols_def lowered_def
    by (simp split: sum.splits)
  have len: "length cols = length (columns df)" "length lowered = length (columns df)"
    by (simp_all add: cols_def lowered_def rename_def split: option.splits)
  from column_of_Inr[OF di] have d1: "di < length (columns df)" and d2: "cols ! di = ''date''"
    by (simp_all add: len)
  have label: "lower (columns df ! di) \<in> {''date'', ''time'', riqi}"
  proof (cases "find (\<lambda>c. c \<in> set [''date'', ''time'', riqi]) lowered")
    case None
    with d1 d2 show ?thesis by (simp add: cols_def lowered_def)
  next
    case (Some dc)
    then have "dc \<in> set [''date'', ''time'', riqi]"
      by (auto simp: find_Some_iff)
    with Some d1 d2 show ?thesis
      by (auto simp: cols_def lowered_def rename_def split: if_splits)
  qed
  have same: "(i < length (columns df) \<longrightarrow> (cols ! i = c \<longleftrightarrow> lower (columns df ! i) = c)) \<and>
      (c \<in> set cols \<longleftrightarrow> c \<in> set (map lower (columns df)))"
    if "c \<in> {''close'', ''high'', ''low''}" for c i
  proof (cases "find (\<lambda>c. c \<in> set [''date'', ''time'', riqi]) lowered")
    case None
    then show ?thesis by (simp add: cols_def lowered_def)
  next
    case (Some dc)
    then have dc: "dc \<in> set [''date'', ''time'', riqi]"
      by (auto simp: find_Some_iff)
    from Some have cols: "cols = rename [(dc, ''date'')] lowered"
      by (simp add: cols_def)
    note r1 = date_rename(1)[OF dc that, where cols = lowered and i = i]
    note r2 = date_rename(2)[OF dc that, where cols = lowered]
    from r1 r2 len(2) show ?thesis
      unfolding cols by (simp add: lowered_def)
  qed
  from column_of_Inr[OF ci] same[of "''close''" ci]
  have c1: "ci < length (columns df)" "lower (columns df ! ci) = ''close''"
    by (simp_all add: len)
  have h1: "if ''high'' \<in> set (map lower (columns df))
            then hi < length (columns df) \<and> lower (columns df ! hi) = ''high'' else hi = ci"
  proof (cases "''high'' \<in> set cols")
    case True
    with hi have "column_of cols ''high'' TypeError = Inr hi" by simp
    from column_of_Inr[OF this] True same[of "''high''" hi] show ?thesis
      by (simp add: len)
  next
    case False
    with hi same[of "''high''" hi] show ?thesis by simp
  qed
  have l1: "if ''low'' \<in> set (map lower (columns df))
            then li < length (columns df) \<and> lower (columns df ! li) = ''low'' else li = ci"
  proof (cases "''low'' \<in> set cols")
    case True
    with li have "column_of cols ''low'' TypeError = Inr li" by simp
    from column_of_Inr[OF this] True same[of "''low''" li] show ?thesis
      by (simp add: len)
  next
    case False
    with li same[of "''low''" li] show ?thesis by simp
  qed
  have "out = map (\<lambda>r. \<lparr>date = to_datetime pd (cell_at r di),
                            close = to_numeric pd (cell_at r ci),
                            high = to_numeric pd (cell_at r hi),
                            low = to_numeric pd (cell_at r li)\<rparr>)
                   (filter (\<lambda>r. (case to_datetime pd (cell_at r di) of
                                    None \<Rightarrow> False
                                  | Some t \<Rightarrow> minus_years pd now LOOKBACK_YEARS \<le> t) \<and>
                                 to_numeric pd (cell_at r ci) \<noteq> None)
                      (rows df))"
    using assms di ci hi li
    unfolding clean_dataframe_def Let_def cols_def[symmetric] lowered_def[symmetric]
    by (auto simp: filter_map comp_def case_prod_beta split: option.splits intro!: filter_cong)
  with d1 label c1 h1 l1 show ?thesis by blast
qed

lemmas run_clean =
  clean_dataframe_def sample_pandas_def column_of_def positions_def rename_def cell_at_def
  lower_def lower_char_def riqi_def LOOKBACK_YEARS_def Let_def

text \<open>
  C2, the lower bound. Every row the cleaning routine retains has a date, and that date
  is not before \<open>now - LOOKBACK_YEARS\<close>.
\<close>

theorem clean_dataframe_lookback:
  assumes "clean_dataframe pd now df = Inr out"
  shows "\<forall>r \<in> set out. \<exists>d. date r = Some d \<and> minus_years pd now LOOKBACK_YEARS \<le> d"
proof -
  from clean_dataframe_Inr[OF assms] show ?thesis
    by (auto split: option.splits)
qed

theorem clean_dataframe_lookback_witness:
  "clean_dataframe sample_pandas 2000
      \<lparr>columns = [''Date'', ''Close''], rows = [[100, 5], [1900, 7]]\<rparr>
     = Inr [\<lparr>date = Some 1900, close = Some 7, high = Some 7, low = Some 7\<rparr>] \<and>
   (\<exists>d. date \<lparr>date = Some 1900, close = Some 7, high = Some 7, low = Some (7::real)\<rparr> = Some d \<and>
        minus_years sample_pandas 2000 LOOKBACK_YEARS \<le> d)"
proof -
  have run: "clean_dataframe sample_pandas 2000
      \<lparr>columns = [''Date'', ''Close''], rows = [[100, 5], [1900, 7]]\<rparr>
     = Inr [\<lparr>date = Some 1900, close = Some 7, high = Some 7, low = Some 7\<rparr>]"
    by (simp add: run_clean)
  from clean_dataframe_lookback[OF run] show ?thesis
    using run by simp
qed

text \<open>
  C2, the upper bound, fails: the routine compares dates with the cutoff only. A row dated
  day 2500 is retained when \<open>now\<close> is day 2000.
\<close>

theorem clean_dataframe_future_counterexample:
  "clean_dataframe sample_pandas 2000
      \<lparr>columns = [''Date'', ''Close''], rows = [[2500, 7]]\<rparr>
     = Inr [\<lparr>date = Some 2500, close = Some 7, high = Some 7, low = Some 7\<rparr>] \<and>
   \<not> (2500 \<le> (2000::timestamp))"
  by (simp add: run_clean)

text \<open>
  C3, as the code has it. The routine neither sorts nor removes duplicates. Its output is
  the list of the input rows that pass the two filters, a date that parses and is not
  before the cutoff and a close that parses, one output row per such input row, in the
  order of the input; the date is read from the column whose lower-cased label is one of
  the date labels, close from the column labelled \<open>close\<close>, high and low from the columns
  so labelled, or from the close column where the table has none. So the output ascends
  by date when the input does.
\<close>

theorem clean_dataframe_keeps_order:
  assumes "clean_dataframe pd now df = Inr out"
  shows "\<exists>di ci hi li.
           di < length (columns df) \<and>
           lower (columns df ! di) \<in> {''date'', ''time'', riqi} \<and>
           ci < length (columns df) \<and> lower (columns df ! ci) = ''close'' \<and>
           (if ''high'' \<in> set (map lower (columns df))
            then hi < length (columns df) \<and> lower (columns df ! hi) = ''high'' else hi = ci) \<and>
           (if ''low'' \<in> set (map lower (columns df))
            then li < length (columns df) \<and> lower (columns df ! li) = ''low'' else li = ci) \<and>
           out = map (\<lambda>r. \<lparr>date = to_datetime pd (cell_at r di),
                            close = to_numeric pd (cell_at r ci),
                            high = to_numeric pd (cell_at r hi),
                            low = to_numeric pd (cell_at r li)\<rparr>)
                   (filter (\<lambda>r. (case to_datetime pd (cell_at r di) of
                                    None \<Rightarrow> False
                                  | Some t \<Rightarrow> minus_years pd now LOOKBACK_YEARS \<le> t) \<and>
                                 to_numeric pd (cell_at r ci) \<noteq> None)
                      (rows df)) \<and>
           (\<forall>ds. map (\<lambda>r. to_datetime pd (cell_at r di)) (rows df) = map Some ds \<and> sorted ds
                 \<longrightarrow> (\<exists>ds'. map date out = map Some ds' \<and> sorted ds'))"
proof -
  from clean_dataframe_Inr[OF assms] obtain di ci hi li where
    di: "di < length (columns df)" "lower (columns df ! di) \<in> {''date'', ''time'', riqi}"
    and ci: "ci < length (columns df)" "lower (columns df ! ci) = ''close''"
    and hi: "if ''high'' \<in> set (map lower (columns df))
            then hi < length (columns df) \<and> lower (columns df ! hi) = ''high'' else hi = ci"
    and li: "if ''low'' \<in> set (map lower (columns df))
            then li < length (columns df) \<and> lower (columns df ! li) = ''low'' else li = ci"
    and out: "out = map (\<lambda>r. \<lparr>date = to_datetime pd (cell_at r di),
                            close = to_numeric pd (cell_at r ci),
                            high = to_numeric pd (cell_at r hi),
                            low = to_numeric pd (cell_at r li)\<rparr>)
                   (filter (\<lambda>r. (case to_datetime pd (cell_at r di) of
                                    None \<Rightarrow> False
                                  | Some t \<Rightarrow> minus_years pd now LOOKBACK_YEARS \<le> t) \<and>
                                 to_numeric pd (cell_at r ci) \<noteq> None)
                      (rows df))"
    by blast
  define g where "g = (\<lambda>r. to_datetime pd (cell_at r di))"
  define keep where "keep = (\<lambda>r. (case to_datetime pd (cell_at r di) of
                                    None \<Rightarrow> False
                                  | Some t \<Rightarrow> minus_years pd now LOOKBACK_YEARS \<le> t) \<and>
                                 to_numeric pd (cell_at r ci) \<noteq> None)"
  have dates: "map date out = map g (filter keep (rows df))"
    unfolding out g_def keep_def by (simp add: comp_def)
  have srt: "\<exists>ds'. map date out = map Some ds' \<and> sorted ds'"
    if in_dates: "map g (rows df) = map Some ds" and asc: "sorted ds" for ds
  proof -
    have g: "g r = Some (the (g r))" if "r \<in> set (rows df)" for r
    proof -
      from that have "g r \<in> set (map g (rows df))" by simp
      then have "g r \<in> set (map Some ds)" by (simp only: in_dates)
      then show ?thesis by auto
    qed
    have "map Some (map (\<lambda>r. the (g r)) (rows df)) = map g (rows df)"
      using g by (simp add: comp_def)
    then have "map Some (map (\<lambda>r. the (g r)) (rows df)) = map Some ds"
      by (simp only: in_dates)
    then have "map (\<lambda>r. the (g r)) (rows df) = ds"
      by (simp only: inj_map_eq_map[OF inj_Some])
    with asc have "sorted (map (\<lambda>r. the (g r)) (rows df))" by simp
    then have "sorted (map (\<lambda>r. the (g r)) (filter keep (rows df)))"
      by (rule sorted_filter)
    moreover have "map date out = map Some (map (\<lambda>r. the (g r)) (filter keep (rows df)))"
      using g by (simp add: dates comp_def)
    ultimately show ?thesis by blast
  qed
  show ?thesis
  proof (rule exI[of _ di], rule exI[of _ ci], rule exI[of _ hi], rule exI[of _ li],
      intro conjI allI impI)
    show "di < length (columns df)" by (rule di(1))
    show "lower (columns df ! di) \<in> {''date'', ''time'', riqi}" by (rule di(2))
    show "ci < length (columns df)" by (rule ci(1))
    show "lower (columns df ! ci) = ''close''" by (rule ci(2))
    show "if ''high'' \<in> set (map lower (columns df))
            then hi < length (columns df) \<and> lower (columns df ! hi) = ''high'' else hi = ci"
      by (rule hi)
    show "if ''low'' \<in> set (map lower (columns df))
            then li < length (columns df) \<and> lower (columns df ! li) = ''low'' else li = ci"
      by (rule li)
    show "out = map (\<lambda>r. \<lparr>date = to_datetime pd (cell_at r di),
                            close = to_numeric pd (cell_at r ci),
                            high = to_numeric pd (cell_at r hi),
                            low = to_numeric pd (cell_at r li)\<rparr>)
                   (filter (\<lambda>r. (case to_datetime pd (cell_at r di) of
                                    None \<Rightarrow> False
                                  | Some t \<Rightarrow> minus_years pd now LOOKBACK_YEARS \<le> t) \<and>
                                 to_numeric pd (cell_at r ci) \<noteq> None)
                      (rows df))"
      by (rule out)
    fix ds
    assume "map (\<lambda>r. to_datetime pd (cell_at r di)) (rows df) = map Some ds \<and> sorted ds"
    then have "map g (rows df) = map Some ds" "sorted ds"
      unfolding g_def by simp_all
    then show "\<exists>ds'. map date out = map Some ds' \<and> sorted ds'" by (rule srt)
  qed
qed

theorem clean_dataframe_keeps_order_witness:
  "clean_dataframe sample_pandas 2000
      \<lparr>columns = [''time'', ''CLOSE'', ''high''],
       rows = [[1900 :: int, 5, 6], [100, 4, 4], [1950, -1, 8], [1950, 7, 9]]\<rparr>
     = Inr [\<lparr>date = Some 1900, close = Some 5, high = Some 6, low = Some 5\<rparr>,
            \<lparr>date = Some 1950, close = Some 7, high = Some 9, low = Some 7\<rparr>] \<and>
   (\<exists>di ci hi li.
           di < length (columns 
\<lparr>columns = [''time'', ''CLOSE'', ''high''],
       rows = [[1900 :: int, 5, 6], [100, 4, 4], [1950, -1, 8], [1950, 7, 9]]\<rparr>) \<and>
           lower (columns 
\<lparr>columns = [''time'', ''CLOSE'', ''high''],
       rows = [[1900 :: int, 5, 6], [100, 4, 4], [1950, -1, 8], [1950, 7, 9]]\<rparr> ! di) \<in> {''date'', ''time'', riqi} \<and>
           ci < length (columns 
\<lparr>columns = [''time'', ''CLOSE'', ''high''],
       rows = [[1900 :: int, 5, 6], [100, 4, 4], [1950, -1, 8], [1950, 7, 9]]\<rparr>) \<and> lower (columns 
\<lparr>columns = [''time'', ''CLOSE'', ''high''],
       rows = [[1900 :: int, 5, 6], [100, 4, 4], [1950, -1, 8], [1950, 7, 9]]\<rparr> ! ci) = ''close'' \<and>
           (if ''high'' \<in> set (map lower (columns 
\<lparr>columns = [''time'', ''CLOSE'', ''high''],
       rows = [[1900 :: int, 5, 6], [100, 4, 4], [1950, -1, 8], [1950, 7, 9]]\<rparr>))
            then hi < length (columns 
\<lparr>columns = [''time'', ''CLOSE'', ''high''],
       rows = [[1900 :: int, 5, 6], [100, 4, 4], [1950, -1, 8], [1950, 7, 9]]\<rparr>) \<and> lower (columns 
\<lparr>columns = [''time'', ''CLOSE'', ''high''],
       rows = [[1900 :: int, 5, 6], [100, 4, 4], [1950, -1, 8], [1950, 7, 9]]\<rparr> ! hi) = ''high'' else hi = ci) \<and>
           (if ''low'' \<in> set (map lower (columns 
\<lparr>columns = [''time'', ''CLOSE'', ''high''],
       rows = [[1900 :: int, 5, 6], [100, 4, 4], [1950, -1, 8], [1950, 7, 9]]\<rparr>))
            then li < length (columns 
\<lparr>columns = [''time'', ''CLOSE'', ''high''],
       rows = [[1900 :: int, 5, 6], [100, 4, 4], [1950, -1, 8], [1950, 7, 9]]\<rparr>) \<and> lower (columns 
\<lparr>columns = [''time'', ''CLOSE'', ''high''],
       rows = [[1900 :: int, 5, 6], [100, 4, 4], [1950, -1, 8], [1950, 7, 9]]\<rparr> ! li) = ''low'' else li = ci) \<and>
           
[\<lparr>date = Some 1900, close = Some 5, high = Some 6, low = Some 5\<rparr>,
            \<lparr>date = Some 1950, close = Some 7, high = Some 9, low = Some 7\<rparr>] = map (\<lambda>r. \<lparr>date = to_datetime sample_pandas (cell_at r di),
                            close = to_numeric sample_pandas (cell_at r ci),
                            high = to_numeric sample_pandas (cell_at r hi),
                            low = to_numeric sample_pandas (cell_at r li)\<rparr>)
                   (filter (\<lambda>r. (case to_datetime sample_pandas (cell_at r di) of
                                    None \<Rightarrow> False
                                  | Some t \<Rightarrow> minus_years sample_pandas 2000 LOOKBACK_YEARS \<le> t) \<and>
                                 to_numeric sample_pandas (cell_at r ci) \<noteq> None)
                      (rows 
\<lparr>columns = [''time'', ''CLOSE'', ''high''],
       rows = [[1900 :: int, 5, 6], [100, 4, 4], [1950, -1, 8], [1950, 7, 9]]\<rparr>)) \<and>
           (\<forall>ds. map (\<lambda>r. to_datetime sample_pandas (cell_at r di)) (rows 
\<lparr>columns = [''time'', ''CLOSE'', ''high''],
       rows = [[1900 :: int, 5, 6], [100, 4, 4], [1950, -1, 8], [1950, 7, 9]]\<rparr>) = map Some ds \<and> sorted ds
                 \<longrightarrow> (\<exists>ds'. map date 
[\<lparr>date = Some 1900, close = Some 5, high = Some 6, low = Some 5\<rparr>,
            \<lparr>date = Some 1950, close = Some 7, high = Some 9, low = Some 7\<rparr>] = map Some ds' \<and> sorted ds')))"
proof -
  have run: "clean_dataframe sample_pandas 2000
      \<lparr>columns = [''time'', ''CLOSE'', ''high''],
       rows = [[1900 :: int, 5, 6], [100, 4, 4], [1950, -1, 8], [1950, 7, 9]]\<rparr>
     = Inr [\<lparr>date = Some 1900, close = Some 5, high = Some 6, low = Some 5\<rparr>,
            \<lparr>date = Some 1950, close = Some 7, high = Some 9, low = Some 7\<rparr>]"
    by (simp add: run_clean)
  show ?thesis
    by (rule conjI[OF run clean_dataframe_keeps_order[OF run]])
qed

text \<open>
  C3 as stated fails. Three rows dated 1950, 1900, 1900 come back in that order: the
  output is not ascending, and both rows of day 1900 are kept.
\<close>

theorem clean_dataframe_sorted_counterexample:
  "clean_dataframe sample_pandas 2000
      \<lparr>columns = [''date'', ''close''], rows = [[1950, 5], [1900, 6], [1900, 7]]\<rparr>
     = Inr [\<lparr>date = Some 1950, close = Some 5, high = Some 5, low = Some 5\<rparr>,
            \<lparr>date = Some 1900, close = Some 6, high = Some 6, low = Some 6\<rparr>,
            \<lparr>date = Some 1900, close = Some 7, high = Some 7, low = Some 7\<rparr>] \<and>
   \<not> sorted [1950, 1900, 1900 :: timestamp] \<and>
   \<not> distinct [1950, 1900, 1900 :: timestamp]"
  by (simp add: run_clean)

section \<open>Properties of the adapters and the orchestrator\<close>

lemma try_except_Inr: "\<exists>r. try_except body = Inr r"
  by (cases body) (simp_all add: try_except_def)

lemma try_except_idem: "try_except (try_except body) = try_except body"
  by (cases body) (simp_all add: try_except_def)







lemmas names_def =
  zhonggai_hulian_def shangzheng_zhishu_def hengsheng_zhishu_def biaopu_500_def


lemma fetch_zhonggai_tushare_source:
  assumes "snd (fetch_zhonggai_tushare pd env now pro) = Inr (Some m)"
  shows "source m = Some ''Tushare''"
  using assms
  by (auto simp: fetch_zhonggai_tushare_def try_except_def set_source_def Let_def
      split: sum.splits if_splits option.splits)

lemma fetch_zhonggai_etf_source:
  assumes "snd (fetch_zhonggai_etf pd env now) = Inr (Some m)"
  shows "source m = Some ''ETF''"
  using assms
  by (auto simp: fetch_zhonggai_etf_def try_except_def set_source_def Let_def
      split: sum.splits if_splits option.splits)

lemma fetch_zhonggai_tushare_returns:
  "\<exists>r. snd (fetch_zhonggai_tushare pd env now pro) = Inr r"
  by (simp add: fetch_zhonggai_tushare_def Let_def try_except_Inr)

lemma fetch_zhonggai_etf_caught:
  "try_except (snd (fetch_zhonggai_etf pd env now)) = snd (fetch_zhonggai_etf pd env now)"
  by (simp add: fetch_zhonggai_etf_def try_except_idem)

lemma fetch_zhonggai_tushare_unavailable:
  assumes "\<forall>s e. case index_daily env ''H30533.CSI'' s e of Inl err \<Rightarrow> True | Inr df \<Rightarrow> df_empty df"
  shows "snd (fetch_zhonggai_tushare pd env now pro) = Inr None"
proof -
  let ?s = "strftime pd ''%Y%m%d'' (minus_years pd now LOOKBACK_YEARS)"
  let ?e = "strftime pd ''%Y%m%d'' now"
  from assms have "case index_daily env ''H30533.CSI'' ?s ?e of
      Inl err \<Rightarrow> True | Inr df \<Rightarrow> df_empty df"
    by blast
  then show ?thesis
    by (simp add: fetch_zhonggai_tushare_def Let_def try_except_def split: sum.splits)
qed

text \<open>
  C5, with the labels the code writes. For the special index the Tushare adapter is tried
  first, and only when a client exists, which without a client kept from before needs a
  token. When it returns metrics they are the result, tagged \<open>Tushare\<close>, and no other request is
  sent. When there is no client, or the adapter returns \<open>None\<close> (as it does when the
  request raises or the table is empty), the result is that of the ETF adapter, whose
  metrics are tagged \<open>ETF\<close>; when that adapter returns \<open>None\<close> too, the result is \<open>None\<close>.
\<close>

theorem fetch_index_data_zhonggai:
  "(\<forall>pro m. get_instance env inst = Some pro \<and>
             snd (fetch_zhonggai_tushare pd env now pro) = Inr (Some m) \<longrightarrow>
      fetch_index_data pd env now inst zhonggai_hulian symbol =
        ([IndexDaily ''H30533.CSI'' (strftime pd ''%Y%m%d'' (minus_years pd now LOOKBACK_YEARS))
            (strftime pd ''%Y%m%d'' now)], Inr (Some m)) \<and>
      source m = Some ''Tushare'') \<and>
   (get_instance env inst = None \<longrightarrow>
      fetch_index_data pd env now inst zhonggai_hulian symbol = fetch_zhonggai_etf pd env now) \<and>
   (\<forall>pro. get_instance env inst = Some pro \<and>
           snd (fetch_zhonggai_tushare pd env now pro) = Inr None \<longrightarrow>
      fetch_index_data pd env now inst zhonggai_hulian symbol =
        (fst (fetch_zhonggai_tushare pd env now pro) @ fst (fetch_zhonggai_etf pd env now),
         snd (fetch_zhonggai_etf pd env now))) \<and>
   (\<forall>pro. \<exists>r. snd (fetch_zhonggai_tushare pd env now pro) = Inr r) \<and>
   (\<forall>m. snd (fetch_zhonggai_etf pd env now) = Inr (Some m) \<longrightarrow> source m = Some ''ETF'') \<and>
   fst (fetch_zhonggai_etf pd env now) =
     [FundEtfHistEm ''513050'' ''daily'' ''20190101'' ''20261231'' ''qfq''] \<and>
   (inst = None \<and> TUSHARE_TOKEN env = [] \<longrightarrow> get_instance env inst = None) \<and>
   (\<forall>pro. (\<forall>s e. case index_daily env ''H30533.CSI'' s e of
                    Inl err \<Rightarrow> True | Inr df \<Rightarrow> df_empty df) \<longrightarrow>
      snd (fetch_zhonggai_tushare pd env now pro) = Inr None) \<and>
   ((get_instance env inst = None \<or>
     (\<exists>pro. get_instance env inst = Some pro \<and>
            snd (fetch_zhonggai_tushare pd env now pro) = Inr None)) \<and>
    snd (fetch_zhonggai_etf pd env now) = Inr None \<longrightarrow>
      snd (fetch_index_data pd env now inst zhonggai_hulian symbol) = Inr None)"
proof (intro conjI allI impI)
  fix pro m
  assume h: "get_instance env inst = Some pro \<and>
             snd (fetch_zhonggai_tushare pd env now pro) = Inr (Some m)"
  have "fst (fetch_zhonggai_tushare pd env now pro) =
      [IndexDaily ''H30533.CSI'' (strftime pd ''%Y%m%d'' (minus_years pd now LOOKBACK_YEARS))
            (strftime pd ''%Y%m%d'' now)]"
    by (simp add: fetch_zhonggai_tushare_def Let_def)
  with h have "fetch_zhonggai_tushare pd env now pro =
      ([IndexDaily ''H30533.CSI'' (strftime pd ''%Y%m%d'' (minus_years pd now LOOKBACK_YEARS))
            (strftime pd ''%Y%m%d'' now)], Inr (Some m))"
    by (metis prod.collapse)
  with h show "fetch_index_data pd env now inst zhonggai_hulian symbol =
        ([IndexDaily ''H30533.CSI'' (strftime pd ''%Y%m%d'' (minus_years pd now LOOKBACK_YEARS))
            (strftime pd ''%Y%m%d'' now)], Inr (Some m))"
    by (simp add: fetch_index_data_def try_except_def)
  from h show "source m = Some ''Tushare''"
    using fetch_zhonggai_tushare_source by blast
next
  assume none: "get_instance env inst = None"
  obtain calls body where etf: "fetch_zhonggai_etf pd env now = (calls, body)"
    by (cases "fetch_zhonggai_etf pd env now")
  with fetch_zhonggai_etf_caught[of pd env now] have "try_except body = body" by simp
  with none etf
  show "fetch_index_data pd env now inst zhonggai_hulian symbol = fetch_zhonggai_etf pd env now"
    by (simp add: fetch_index_data_def)
next
  fix pro
  assume h: "get_instance env inst = Some pro \<and>
           snd (fetch_zhonggai_tushare pd env now pro) = Inr None"
  then obtain tcalls where "fetch_zhonggai_tushare pd env now pro = (tcalls, Inr None)"
    by (cases "fetch_zhonggai_tushare pd env now pro") auto
  moreover obtain calls body where etf: "fetch_zhonggai_etf pd env now = (calls, body)"
    by (cases "fetch_zhonggai_etf pd env now")
  moreover from etf fetch_zhonggai_etf_caught[of pd env now] have "try_except body = body"
    by simp
  ultimately show "fetch_index_data pd env now inst zhonggai_hulian symbol =
        (fst (fetch_zhonggai_tushare pd env now pro) @ fst (fetch_zhonggai_etf pd env now),
         snd (fetch_zhonggai_etf pd env now))"
    using h by (simp add: fetch_index_data_def)
next
  fix pro
  show "\<exists>r. snd (fetch_zhonggai_tushare pd env now pro) = Inr r"
    by (rule fetch_zhonggai_tushare_returns)
next
  fix m
  assume "snd (fetch_zhonggai_etf pd env now) = Inr (Some m)"
  then show "source m = Some ''ETF''" by (rule fetch_zhonggai_etf_source)
next
  show "fst (fetch_zhonggai_etf pd env now) =
     [FundEtfHistEm ''513050'' ''daily'' ''20190101'' ''20261231'' ''qfq'']"
    by (simp add: fetch_zhonggai_etf_def)
next
  assume "inst = None \<and> TUSHARE_TOKEN env = []"
  then show "get_instance env inst = None" by (simp add: get_instance_def)
next
  fix pro
  assume "\<forall>s e. case index_daily env ''H30533.CSI'' s e of
                    Inl err \<Rightarrow> True | Inr df \<Rightarrow> df_empty df"
  then show "snd (fetch_zhonggai_tushare pd env now pro) = Inr None"
    by (rule fetch_zhonggai_tushare_unavailable)
next
  assume h: "(get_instance env inst = None \<or>
     (\<exists>pro. get_instance env inst = Some pro \<and>
            snd (fetch_zhonggai_tushare pd env now pro) = Inr None)) \<and>
    snd (fetch_zhonggai_etf pd env now) = Inr None"
  then obtain ecalls where etf: "fetch_zhonggai_etf pd env now = (ecalls, Inr None)"
    by (cases "fetch_zhonggai_etf pd env now") auto
  from h consider "get_instance env inst = None"
    | pro where "get_instance env inst = Some pro"
        "snd (fetch_zhonggai_tushare pd env now pro) = Inr None"
    by auto
  then show "snd (fetch_index_data pd env now inst zhonggai_hulian symbol) = Inr None"
  proof cases
    case 1
    with etf show ?thesis
      by (simp add: fetch_index_data_def try_except_def split: prod.splits)
  next
    case 2
    from 2(2) obtain tcalls where "fetch_zhonggai_tushare pd env now pro = (tcalls, Inr None)"
      by (cases "fetch_zhonggai_tushare pd env now pro") auto
    with 2(1) etf show ?thesis
      by (simp add: fetch_index_data_def try_except_def split: prod.splits)
  qed
qed

lemma strip_labels:
  "strip riqi = riqi" "strip kaipan = kaipan" "strip shoupan = shoupan"
  "strip zuigao = zuigao" "strip zuidi = zuidi"
  by code_simp+

lemmas run_fetch =
  fetch_index_data_def fetch_zhonggai_tushare_def fetch_zhonggai_etf_def get_instance_def
  try_except_def set_source_def df_empty_def extract_metrics_def strftime_at_def
  sample_providers_def kaipan_def shoupan_def zuigao_def zuidi_def
  strip_labels[unfolded riqi_def kaipan_def shoupan_def zuigao_def zuidi_def]

theorem fetch_index_data_zhonggai_witness:
  "get_instance sample_providers None = Some ProClient \<and>
   snd (fetch_zhonggai_tushare sample_pandas sample_providers 2000 ProClient) =
     Inr (Some \<lparr>cur = Some 8, hv = 9, hd' = ''day 2000'', lv = 6, ld = ''day 1950'',
                source = Some ''Tushare''\<rparr>) \<and>
   fetch_index_data sample_pandas sample_providers 2000 None zhonggai_hulian ''H30533'' =
     ([IndexDaily ''H30533.CSI'' ''another day'' ''day 2000''],
      Inr (Some \<lparr>cur = Some 8, hv = 9, hd' = ''day 2000'', lv = 6, ld = ''day 1950'',
                 source = Some ''Tushare''\<rparr>)) \<and>
   get_instance (sample_providers\<lparr>TUSHARE_TOKEN := []\<rparr>) None = None \<and>
   fetch_index_data sample_pandas (sample_providers\<lparr>TUSHARE_TOKEN := []\<rparr>) 2000 None
       zhonggai_hulian ''H30533'' =
     ([FundEtfHistEm ''513050'' ''daily'' ''20190101'' ''20261231'' ''qfq''],
      Inr (Some \<lparr>cur = Some 3, hv = 4, hd' = ''day 2000'', lv = 1, ld = ''day 1950'',
                 source = Some ''ETF''\<rparr>))"
proof -
  let ?m = "\<lparr>cur = Some 8, hv = 9, hd' = ''day 2000'', lv = 6, ld = ''day 1950'',
                source = Some ''Tushare''\<rparr>"
  have a: "get_instance sample_providers None = Some ProClient"
    by (simp add: get_instance_def sample_providers_def)
  have b: "snd (fetch_zhonggai_tushare sample_pandas sample_providers 2000 ProClient) =
     Inr (Some ?m)"
    by (simp add: run_fetch run_clean)
  have c: "get_instance (sample_providers\<lparr>TUSHARE_TOKEN := []\<rparr>) None = None"
    by (simp add: get_instance_def sample_providers_def)
  have d: "fetch_zhonggai_etf sample_pandas (sample_providers\<lparr>TUSHARE_TOKEN := []\<rparr>) 2000 =
     ([FundEtfHistEm ''513050'' ''daily'' ''20190101'' ''20261231'' ''qfq''],
      Inr (Some \<lparr>cur = Some 3, hv = 4, hd' = ''day 2000'', lv = 1, ld = ''day 1950'',
                 source = Some ''ETF''\<rparr>))"
    by (simp add: run_fetch run_clean)
  have e: "strftime sample_pandas ''%Y%m%d'' (minus_years sample_pandas 2000 LOOKBACK_YEARS)
      = ''another day''" "strftime sample_pandas ''%Y%m%d'' 2000 = ''day 2000''"
    by (simp_all add: sample_pandas_def LOOKBACK_YEARS_def)
  note t1 = fetch_index_data_zhonggai[where env = sample_providers and inst = None
      and pd = sample_pandas and now = 2000 and symbol = "''H30533''"]
  note t2 = fetch_index_data_zhonggai[where env = "sample_providers\<lparr>TUSHARE_TOKEN := []\<rparr>"
      and inst = None and pd = sample_pandas and now = 2000 and symbol = "''H30533''"]
  from t1 a b have "fetch_index_data sample_pandas sample_providers 2000 None zhonggai_hulian ''H30533'' =
        ([IndexDaily ''H30533.CSI'' (strftime sample_pandas ''%Y%m%d'' (minus_years sample_pandas 2000 LOOKBACK_YEARS))
            (strftime sample_pandas ''%Y%m%d'' 2000)], Inr (Some ?m))"
    by blast
  moreover from t2 c have "fetch_index_data sample_pandas (sample_providers\<lparr>TUSHARE_TOKEN := []\<rparr>) 2000 None
       zhonggai_hulian ''H30533'' = fetch_zhonggai_etf sample_pandas (sample_providers\<lparr>TUSHARE_TOKEN := []\<rparr>) 2000"
    by blast
  ultimately show ?thesis
    using a b c d e by simp
qed

text \<open>
  C5 as stated fails on the labels: the metrics of the first adapter carry \<open>Tushare\<close>, not
  \<open>official\<close>, and those of the second carry \<open>ETF\<close>, not \<open>proxy\<close>.
\<close>

theorem fetch_index_data_zhonggai_counterexample:
  "snd (fetch_index_data sample_pandas sample_providers 2000 None zhonggai_hulian ''H30533'') =
     Inr (Some \<lparr>cur = Some 8, hv = 9, hd' = ''day 2000'', lv = 6, ld = ''day 1950'',
                source = Some ''Tushare''\<rparr>) \<and>
   Some ''Tushare'' \<noteq> Some ''official'' \<and>
   snd (fetch_index_data sample_pandas (sample_providers\<lparr>TUSHARE_TOKEN := []\<rparr>) 2000 None
       zhonggai_hulian ''H30533'') =
     Inr (Some \<lparr>cur = Some 3, hv = 4, hd' = ''day 2000'', lv = 1, ld = ''day 1950'',
                 source = Some ''ETF''\<rparr>) \<and>
   Some ''ETF'' \<noteq> Some ''proxy''"
  by (simp add: run_fetch run_clean)

lemma clean_dataframe_no_recent_date:
  assumes "no_recent_date pd now df" and "clean_dataframe pd now (df\<lparr>columns := cols\<rparr>) = Inr s"
  shows "s = []"
proof -
  from clean_dataframe_Inr[OF assms(2)] obtain di ci hi li where
    s: "s = map (\<lambda>r. \<lparr>date = to_datetime pd (cell_at r di),
                            close = to_numeric pd (cell_at r ci),
                            high = to_numeric pd (cell_at r hi),
                            low = to_numeric pd (cell_at r li)\<rparr>)
                   (filter (\<lambda>r. (case to_datetime pd (cell_at r di) of
                                    None \<Rightarrow> False
                                  | Some t \<Rightarrow> minus_years pd now LOOKBACK_YEARS \<le> t) \<and>
                                 to_numeric pd (cell_at r ci) \<noteq> None)
                      (rows df))"
    by auto
  have "\<not> (case to_datetime pd (cell_at r di) of
             None \<Rightarrow> False
           | Some t \<Rightarrow> minus_years pd now LOOKBACK_YEARS \<le> t)" if "r \<in> set (rows df)" for r
  proof -
    from assms(1) that have "case to_datetime pd (cell_at r di) of
                                None \<Rightarrow> True
                              | Some t \<Rightarrow> t < minus_years pd now LOOKBACK_YEARS"
      by blast
    then show ?thesis by (simp split: option.splits)
  qed
  then have "filter (\<lambda>r. (case to_datetime pd (cell_at r di) of
                                    None \<Rightarrow> False
                                  | Some t \<Rightarrow> minus_years pd now LOOKBACK_YEARS \<le> t) \<and>
                                 to_numeric pd (cell_at r ci) \<noteq> None)
                      (rows df) = []"
    by (simp add: filter_empty_conv)
  with s show ?thesis by simp
qed

lemma cleaned_no_recent_date:
  assumes "no_recent_date pd now df"
  shows "try_except (case clean_dataframe pd now (df\<lparr>columns := cols\<rparr>) of
                        Inl e \<Rightarrow> Inl e
                      | Inr series \<Rightarrow> extract_metrics fmt series) = Inr None"
proof (cases "clean_dataframe pd now (df\<lparr>columns := cols\<rparr>)")
  case (Inl e)
  then show ?thesis by (simp add: try_except_def)
next
  case (Inr s)
  with clean_dataframe_no_recent_date[OF assms Inr] show ?thesis
    by (simp add: try_except_def extract_metrics_def)
qed

lemma fetch_a_share_index_no_data:
  assumes "case stock_zh_index_daily_em env code of
             Inl e \<Rightarrow> True | Inr df \<Rightarrow> no_recent_date pd now df"
  shows "snd (fetch_a_share_index pd env now code) = Inr None"
proof (cases "stock_zh_index_daily_em env code")
  case (Inl e)
  then show ?thesis by (simp add: fetch_a_share_index_def try_except_def)
next
  case (Inr df)
  with assms have "no_recent_date pd now df" by simp
  from cleaned_no_recent_date[OF this, where cols = "columns df"] Inr show ?thesis
    by (simp add: fetch_a_share_index_def)
qed

lemma fetch_us_index_no_data:
  assumes "\<forall>c \<in> set (fst (fetch_us_index pd env now code)).
             case answer env c of Inl e \<Rightarrow> True | Inr df \<Rightarrow> no_recent_date pd now df"
  shows "snd (fetch_us_index pd env now code) = Inr None"
proof -
  define symbol where "symbol = (let symbol = replace ''gb.'' [] code
      in if symbol = ''INX'' then ''.INX'' else if symbol = ''NDX'' then ''.NDX'' else symbol)"
  have fst: "fst (fetch_us_index pd env now code) = [IndexUsStockSina symbol]"
    and snd: "snd (fetch_us_index pd env now code) =
      try_except (case index_us_stock_sina env symbol of
               Inl e \<Rightarrow> Inl e
             | Inr df \<Rightarrow>
                 (case clean_dataframe pd now df of
                    Inl e \<Rightarrow> Inl e
                  | Inr series \<Rightarrow> extract_metrics (strftime pd ''%Y-%m-%d'') series))"
    by (simp_all add: fetch_us_index_def symbol_def Let_def)
  show ?thesis
  proof (cases "index_us_stock_sina env symbol")
    case (Inl e)
    then show ?thesis by (simp add: snd try_except_def)
  next
    case (Inr df)
    with assms fst have "no_recent_date pd now df" by (simp add: answer_def)
    from cleaned_no_recent_date[OF this, where cols = "columns df"] Inr show ?thesis
      by (simp add: snd)
  qed
qed

lemma fetch_hongkong_index_no_data:
  assumes "\<forall>c \<in> set (fst (fetch_hongkong_index pd env now code)).
             case answer env c of Inl e \<Rightarrow> True | Inr df \<Rightarrow> no_recent_date pd now df"
  shows "snd (fetch_hongkong_index pd env now code) = Inr None"
proof (cases "stock_hk_index_daily_em env (replace ''hk'' [] code)")
  case (Inl e)
  then show ?thesis by (simp add: fetch_hongkong_index_def try_except_def)
next
  case (Inr df)
  with assms have stale: "no_recent_date pd now df"
    by (simp add: fetch_hongkong_index_def answer_def)
  show ?thesis
  proof (cases "df_empty df")
    case True
    with Inr show ?thesis by (simp add: fetch_hongkong_index_def try_except_def)
  next
    case False
    with Inr cleaned_no_recent_date[OF stale] show ?thesis
      by (simp add: fetch_hongkong_index_def Let_def)
  qed
qed

lemma fetch_zhonggai_etf_no_data:
  assumes "\<forall>c \<in> set (fst (fetch_zhonggai_etf pd env now)).
             case answer env c of Inl e \<Rightarrow> True | Inr df \<Rightarrow> no_recent_date pd now df"
  shows "snd (fetch_zhonggai_etf pd env now) = Inr None"
proof (cases "fund_etf_hist_em env ''513050'' ''daily'' ''20190101'' ''20261231'' ''qfq''")
  case (Inl e)
  then show ?thesis by (simp add: fetch_zhonggai_etf_def try_except_def)
next
  case (Inr df)
  with assms have stale: "no_recent_date pd now df"
    by (simp add: fetch_zhonggai_etf_def answer_def)
  show ?thesis
  proof (cases "df_empty df")
    case True
    with Inr show ?thesis by (simp add: fetch_zhonggai_etf_def try_except_def)
  next
    case False
    let ?cols = "rename [(riqi, ''date''), (kaipan, ''open''), (shoupan, ''close''),
                                  (zuigao, ''high''), (zuidi, ''low'')] (map strip (columns df))"
    show ?thesis
    proof (cases "clean_dataframe pd now (df\<lparr>columns := ?cols\<rparr>)")
      case (Inl e)
      with Inr False show ?thesis
        by (simp add: fetch_zhonggai_etf_def Let_def try_except_def)
    next
      case (Inr s)
      from clean_dataframe_no_recent_date[OF stale Inr] have "s = []" .
      with Inr \<open>fund_etf_hist_em env ''513050'' ''daily'' ''20190101'' ''20261231'' ''qfq'' = Inr df\<close>
        False show ?thesis
        by (simp add: fetch_zhonggai_etf_def Let_def try_except_def)
    qed
  qed
qed

lemma fetch_a_share_index_failed:
  assumes "\<forall>c \<in> set (fst (fetch_a_share_index pd env now code)). failed pd env now c"
  shows "snd (fetch_a_share_index pd env now code) = Inr None"
  using assms
  by (auto simp: fetch_a_share_index_def answer_def series_of_def try_except_def
      split: sum.splits)

lemma fetch_us_index_failed:
  assumes "\<forall>c \<in> set (fst (fetch_us_index pd env now code)). failed pd env now c"
  shows "snd (fetch_us_index pd env now code) = Inr None"
  using assms
  by (auto simp: fetch_us_index_def answer_def series_of_def try_except_def Let_def
      split: sum.splits)

lemma fetch_hongkong_index_failed:
  assumes "\<forall>c \<in> set (fst (fetch_hongkong_index pd env now code)). failed pd env now c"
  shows "snd (fetch_hongkong_index pd env now code) = Inr None"
  using assms
  by (auto simp: fetch_hongkong_index_def answer_def series_of_def try_except_def Let_def
      split: sum.splits)

lemma fetch_zhonggai_etf_failed:
  assumes "\<forall>c \<in> set (fst (fetch_zhonggai_etf pd env now)). failed pd env now c"
  shows "snd (fetch_zhonggai_etf pd env now) = Inr None"
  using assms
  by (auto simp: fetch_zhonggai_etf_def answer_def series_of_def try_except_def Let_def
      set_source_def extract_metrics_def split: sum.splits)

lemma fetch_zhonggai_tushare_failed:
  assumes "\<forall>c \<in> set (fst (fetch_zhonggai_tushare pd env now pro)). failed pd env now c"
  shows "snd (fetch_zhonggai_tushare pd env now pro) = Inr None"
  using assms
  by (auto simp: fetch_zhonggai_tushare_def answer_def series_of_def tushare_series_def
      try_except_def Let_def set_source_def split: sum.splits)

lemma fetch_zhonggai_tushare_no_rows:
  assumes "\<forall>c \<in> set (fst (fetch_zhonggai_tushare pd env now pro)).
             case answer env c of Inl e \<Rightarrow> True | Inr df \<Rightarrow> rows df = []"
  shows "snd (fetch_zhonggai_tushare pd env now pro) = Inr None"
  using assms
  by (simp add: fetch_zhonggai_tushare_def Let_def answer_def df_empty_def try_except_def
      split: sum.splits)

lemma fetch_index_data_returns:
  "\<exists>r. snd (fetch_index_data pd env now inst name symbol) = Inr r"
proof -
  have "\<exists>body. snd (fetch_index_data pd env now inst name symbol) = try_except body"
    by (auto simp: fetch_index_data_def split_beta)
  then show ?thesis using try_except_Inr by metis
qed

text \<open>Where the Tushare adapter is not tried, the orchestrator returns what one
  adapter returns.\<close>

lemma fetch_index_data_single:
  assumes "name \<noteq> zhonggai_hulian \<or> get_instance env inst = None"
  shows "fetch_index_data pd env now inst name symbol =
     (if name = zhonggai_hulian then fetch_zhonggai_etf pd env now
      else if startswith symbol ''hk'' then fetch_hongkong_index pd env now symbol
      else if startswith symbol ''gb'' then fetch_us_index pd env now symbol
      else fetch_a_share_index pd env now symbol)"
  using assms
  by (auto simp: fetch_index_data_def fetch_zhonggai_etf_def fetch_hongkong_index_def
      fetch_us_index_def fetch_a_share_index_def Let_def try_except_idem)

text \<open>
  C6. The orchestrator returns a value on every input, and the value is \<open>None\<close> whenever
  every request it sent failed: the request raised, or the normalisation of the table
  raised, or left an empty series, or the extractor raised. In particular it is \<open>None\<close>
  when every request raised or was answered by a table with no rows, and, on the routes
  through the cleaning routine, when no row of the answer has a date inside the lookback
  window.
\<close>

theorem fetch_index_data_never_raises:
  "(\<exists>r. snd (fetch_index_data pd env now inst name symbol) = Inr r) \<and>
   ((\<forall>c \<in> set (fst (fetch_index_data pd env now inst name symbol)). failed pd env now c) \<longrightarrow>
      snd (fetch_index_data pd env now inst name symbol) = Inr None) \<and>
   ((\<forall>c \<in> set (fst (fetch_index_data pd env now inst name symbol)).
        case answer env c of Inl e \<Rightarrow> True | Inr df \<Rightarrow> rows df = []) \<longrightarrow>
      snd (fetch_index_data pd env now inst name symbol) = Inr None) \<and>
   ((name \<noteq> zhonggai_hulian \<or> get_instance env inst = None) \<and>
    (\<forall>c \<in> set (fst (fetch_index_data pd env now inst name symbol)).
        case answer env c of Inl e \<Rightarrow> True | Inr df \<Rightarrow> no_recent_date pd now df) \<longrightarrow>
      snd (fetch_index_data pd env now inst name symbol) = Inr None)"
proof -
  let ?R = "fetch_index_data pd env now inst name symbol"
  have stale: "snd ?R = Inr None"
    if single: "name \<noteq> zhonggai_hulian \<or> get_instance env inst = None"
      and unusable: "\<forall>c \<in> set (fst ?R).
        case answer env c of Inl e \<Rightarrow> True | Inr df \<Rightarrow> no_recent_date pd now df"
  proof -
    note R = fetch_index_data_single[OF single, of pd now symbol]
    consider "name = zhonggai_hulian"
      | "name \<noteq> zhonggai_hulian" "startswith symbol ''hk''"
      | "name \<noteq> zhonggai_hulian" "\<not> startswith symbol ''hk''" "startswith symbol ''gb''"
      | "name \<noteq> zhonggai_hulian" "\<not> startswith symbol ''hk''" "\<not> startswith symbol ''gb''"
      by blast
    then show ?thesis
    proof cases
      case 1
      with R have eq: "?R = fetch_zhonggai_etf pd env now" by simp
      from unusable show ?thesis
        unfolding eq by (rule fetch_zhonggai_etf_no_data)
    next
      case 2
      with R have eq: "?R = fetch_hongkong_index pd env now symbol" by simp
      from unusable show ?thesis
        unfolding eq by (rule fetch_hongkong_index_no_data)
    next
      case 3
      with R have eq: "?R = fetch_us_index pd env now symbol" by simp
      from unusable show ?thesis
        unfolding eq by (rule fetch_us_index_no_data)
    next
      case 4
      with R have eq: "?R = fetch_a_share_index pd env now symbol" by simp
      from unusable have "case stock_zh_index_daily_em env symbol of
             Inl e \<Rightarrow> True | Inr df \<Rightarrow> no_recent_date pd now df"
        unfolding eq by (simp add: fetch_a_share_index_def answer_def)
      then show ?thesis
        unfolding eq by (rule fetch_a_share_index_no_data)
    qed
  qed
  have no_rows: "snd ?R = Inr None"
    if empty: "\<forall>c \<in> set (fst ?R).
        case answer env c of Inl e \<Rightarrow> True | Inr df \<Rightarrow> rows df = []"
  proof (cases "name \<noteq> zhonggai_hulian \<or> get_instance env inst = None")
    case True
    from empty have "\<forall>c \<in> set (fst ?R).
        case answer env c of Inl e \<Rightarrow> True | Inr df \<Rightarrow> no_recent_date pd now df"
      by (auto split: sum.splits)
    with True show ?thesis by (rule stale)
  next
    case False
    then obtain pro where name: "name = zhonggai_hulian" and pro: "get_instance env inst = Some pro"
      by auto
    obtain tcalls tbody where T: "fetch_zhonggai_tushare pd env now pro = (tcalls, tbody)"
      by (cases "fetch_zhonggai_tushare pd env now pro")
    obtain ecalls ebody where E: "fetch_zhonggai_etf pd env now = (ecalls, ebody)"
      by (cases "fetch_zhonggai_etf pd env now")
    have "set tcalls \<subseteq> set (fst ?R)"
      using name pro T E
      by (auto simp: fetch_index_data_def split: sum.splits option.splits)
    with empty T have "snd (fetch_zhonggai_tushare pd env now pro) = Inr None"
      by (intro fetch_zhonggai_tushare_no_rows) auto
    with T have tb: "tbody = Inr None" by simp
    with name pro T E have R: "?R = (tcalls @ ecalls, try_except ebody)"
      by (simp add: fetch_index_data_def)
    with empty have "\<forall>c \<in> set ecalls.
        case answer env c of Inl e \<Rightarrow> True | Inr df \<Rightarrow> rows df = []"
      by simp
    then have "\<forall>c \<in> set ecalls.
        case answer env c of Inl e \<Rightarrow> True | Inr df \<Rightarrow> no_recent_date pd now df"
      by (auto split: sum.splits)
    with E have "\<forall>c \<in> set (fst (fetch_zhonggai_etf pd env now)).
        case answer env c of Inl e \<Rightarrow> True | Inr df \<Rightarrow> no_recent_date pd now df"
      by simp
    then have "snd (fetch_zhonggai_etf pd env now) = Inr None"
      by (rule fetch_zhonggai_etf_no_data)
    with E R show ?thesis by (simp add: try_except_def)
  qed
  have every: "snd ?R = Inr None"
    if fail: "\<forall>c \<in> set (fst ?R). failed pd env now c"
  proof (cases "name \<noteq> zhonggai_hulian \<or> get_instance env inst = None")
    case True
    note R = fetch_index_data_single[OF True, of pd now symbol]
    consider "name = zhonggai_hulian"
      | "name \<noteq> zhonggai_hulian" "startswith symbol ''hk''"
      | "name \<noteq> zhonggai_hulian" "\<not> startswith symbol ''hk''" "startswith symbol ''gb''"
      | "name \<noteq> zhonggai_hulian" "\<not> startswith symbol ''hk''" "\<not> startswith symbol ''gb''"
      by blast
    then show ?thesis
    proof cases
      case 1
      with R have eq: "?R = fetch_zhonggai_etf pd env now" by simp
      from fail show ?thesis
        unfolding eq by (rule fetch_zhonggai_etf_failed)
    next
      case 2
      with R have eq: "?R = fetch_hongkong_index pd env now symbol" by simp
      from fail show ?thesis
        unfolding eq by (rule fetch_hongkong_index_failed)
    next
      case 3
      with R have eq: "?R = fetch_us_index pd env now symbol" by simp
      from fail show ?thesis
        unfolding eq by (rule fetch_us_index_failed)
    next
      case 4
      with R have eq: "?R = fetch_a_share_index pd env now symbol" by simp
      from fail show ?thesis
        unfolding eq by (rule fetch_a_share_index_failed)
    qed
  next
    case False
    then obtain pro where name: "name = zhonggai_hulian" and pro: "get_instance env inst = Some pro"
      by auto
    obtain tcalls tbody where T: "fetch_zhonggai_tushare pd env now pro = (tcalls, tbody)"
      by (cases "fetch_zhonggai_tushare pd env now pro")
    obtain ecalls ebody where E: "fetch_zhonggai_etf pd env now = (ecalls, ebody)"
      by (cases "fetch_zhonggai_etf pd env now")
    have "set tcalls \<subseteq> set (fst ?R)"
      using name pro T E
      by (auto simp: fetch_index_data_def split: sum.splits option.splits)
    with fail T have "\<forall>c \<in> set (fst (fetch_zhonggai_tushare pd env now pro)). failed pd env now c"
      by auto
    then have "snd (fetch_zhonggai_tushare pd env now pro) = Inr None"
      by (rule fetch_zhonggai_tushare_failed)
    with T have tb: "tbody = Inr None" by simp
    with name pro T E have R: "?R = (tcalls @ ecalls, try_except ebody)"
      by (simp add: fetch_index_data_def)
    with fail E have "\<forall>c \<in> set (fst (fetch_zhonggai_etf pd env now)). failed pd env now c"
      by auto
    then have "snd (fetch_zhonggai_etf pd env now) = Inr None"
      by (rule fetch_zhonggai_etf_failed)
    with E R show ?thesis by (simp add: try_except_def)
  qed
  from fetch_index_data_returns[of pd env now inst name symbol] stale no_rows every
  show ?thesis by blast
qed

theorem fetch_index_data_never_raises_witness:
  "fst (fetch_index_data sample_pandas sample_providers
          2000 None shangzheng_zhishu ''bj899050'')
     = [StockZhIndexDailyEm ''bj899050''] \<and>
   answer sample_providers (StockZhIndexDailyEm ''bj899050'') = Inl UpstreamError \<and>
   snd (fetch_index_data sample_pandas sample_providers
          2000 None shangzheng_zhishu ''bj899050'')
     = Inr None \<and>
   failed sample_pandas (sample_providers\<lparr>stock_zh_index_daily_em := \<lambda>symbol. Inr \<lparr>columns = [], rows = []\<rparr>\<rparr>)
     2000 (StockZhIndexDailyEm ''sh000001'') \<and>
   snd (fetch_index_data sample_pandas (sample_providers\<lparr>stock_zh_index_daily_em := \<lambda>symbol. Inr \<lparr>columns = [], rows = []\<rparr>\<rparr>)
          2000 None shangzheng_zhishu ''sh000001'')
     = Inr None \<and>
   failed sample_pandas (sample_providers\<lparr>stock_zh_index_daily_em := \<lambda>symbol. Inr \<lparr>columns = [''date'', ''close''], rows = [[1950, -1]]\<rparr>\<rparr>)
     2000 (StockZhIndexDailyEm ''sh000001'') \<and>
   snd (fetch_index_data sample_pandas (sample_providers\<lparr>stock_zh_index_daily_em := \<lambda>symbol. Inr \<lparr>columns = [''date'', ''close''], rows = [[1950, -1]]\<rparr>\<rparr>)
          2000 None shangzheng_zhishu ''sh000001'')
     = Inr None \<and>
   failed sample_pandas (sample_providers\<lparr>stock_zh_index_daily_em := \<lambda>symbol. Inr \<lparr>columns = [''date'', ''open''], rows = [[1950, 5]]\<rparr>\<rparr>)
     2000 (StockZhIndexDailyEm ''sh000001'') \<and>
   snd (fetch_index_data sample_pandas (sample_providers\<lparr>stock_zh_index_daily_em := \<lambda>symbol. Inr \<lparr>columns = [''date'', ''open''], rows = [[1950, 5]]\<rparr>\<rparr>)
          2000 None shangzheng_zhishu ''sh000001'')
     = Inr None \<and>
   failed sample_pandas (sample_providers\<lparr>stock_zh_index_daily_em := \<lambda>symbol. Inr \<lparr>columns = [''date'', ''close'', ''high''], rows = [[1950, 5, -1]]\<rparr>\<rparr>)
     2000 (StockZhIndexDailyEm ''sh000001'') \<and>
   snd (fetch_index_data sample_pandas (sample_providers\<lparr>stock_zh_index_daily_em := \<lambda>symbol. Inr \<lparr>columns = [''date'', ''close'', ''high''], rows = [[1950, 5, -1]]\<rparr>\<rparr>)
          2000 None shangzheng_zhishu ''sh000001'')
     = Inr None"
proof -
  have n: "shangzheng_zhishu \<noteq> zhonggai_hulian" by (simp add: names_def)
  have a: "fst (fetch_index_data sample_pandas sample_providers
          2000 None shangzheng_zhishu ''bj899050'')
     = [StockZhIndexDailyEm ''bj899050'']"
    using n by (simp add: fetch_index_data_def fetch_a_share_index_def startswith_def)
  have b: "answer sample_providers (StockZhIndexDailyEm ''bj899050'') = Inl UpstreamError"
    by (simp add: answer_def sample_providers_def)
  note t0 = fetch_index_data_never_raises[where pd = sample_pandas and env = sample_providers
      and now = 2000 and inst = None and name = shangzheng_zhishu and symbol = "''bj899050''"]
  from t0 a b
  have r0: "snd (fetch_index_data sample_pandas sample_providers
          2000 None shangzheng_zhishu ''bj899050'')
     = Inr None"
    by simp
  have l_zero: "fst (fetch_index_data sample_pandas (sample_providers\<lparr>stock_zh_index_daily_em := \<lambda>symbol. Inr \<lparr>columns = [], rows = []\<rparr>\<rparr>)
          2000 None shangzheng_zhishu ''sh000001'')
     = [StockZhIndexDailyEm ''sh000001'']"
    using n by (simp add: fetch_index_data_def fetch_a_share_index_def startswith_def)
  have f_zero: "failed sample_pandas (sample_providers\<lparr>stock_zh_index_daily_em := \<lambda>symbol. Inr \<lparr>columns = [], rows = []\<rparr>\<rparr>)
     2000 (StockZhIndexDailyEm ''sh000001'')"
    by (simp add: answer_def series_of_def extract_metrics_def run_clean)
  note t_zero = fetch_index_data_never_raises[where pd = sample_pandas
      and env = "(sample_providers\<lparr>stock_zh_index_daily_em := \<lambda>symbol. Inr \<lparr>columns = [], rows = []\<rparr>\<rparr>)"
      and now = 2000 and inst = None and name = shangzheng_zhishu and symbol = "''sh000001''"]
  have "\<forall>c \<in> set (fst (fetch_index_data sample_pandas (sample_providers\<lparr>stock_zh_index_daily_em := \<lambda>symbol. Inr \<lparr>columns = [], rows = []\<rparr>\<rparr>)
          2000 None shangzheng_zhishu ''sh000001'')).
      failed sample_pandas (sample_providers\<lparr>stock_zh_index_daily_em := \<lambda>symbol. Inr \<lparr>columns = [], rows = []\<rparr>\<rparr>)
     2000 c"
  proof
    fix c
    assume "c \<in> set (fst (fetch_index_data sample_pandas (sample_providers\<lparr>stock_zh_index_daily_em := \<lambda>symbol. Inr \<lparr>columns = [], rows = []\<rparr>\<rparr>)
          2000 None shangzheng_zhishu ''sh000001''))"
    then have "c = StockZhIndexDailyEm ''sh000001''" by (simp add: l_zero)
    with f_zero show "failed sample_pandas (sample_providers\<lparr>stock_zh_index_daily_em := \<lambda>symbol. Inr \<lparr>columns = [], rows = []\<rparr>\<rparr>)
     2000 c"
      by (simp only:)
  qed
  with t_zero
  have r_zero: "snd (fetch_index_data sample_pandas (sample_providers\<lparr>stock_zh_index_daily_em := \<lambda>symbol. Inr \<lparr>columns = [], rows = []\<rparr>\<rparr>)
          2000 None shangzheng_zhishu ''sh000001'')
     = Inr None"
    by blast
  have l_close: "fst (fetch_index_data sample_pandas (sample_providers\<lparr>stock_zh_index_daily_em := \<lambda>symbol. Inr \<lparr>columns = [''date'', ''close''], rows = [[1950, -1]]\<rparr>\<rparr>)
          2000 None shangzheng_zhishu ''sh000001'')
     = [StockZhIndexDailyEm ''sh000001'']"
    using n by (simp add: fetch_index_data_def fetch_a_share_index_def startswith_def)
  have f_close: "failed sample_pandas (sample_providers\<lparr>stock_zh_index_daily_em := \<lambda>symbol. Inr \<lparr>columns = [''date'', ''close''], rows = [[1950, -1]]\<rparr>\<rparr>)
     2000 (StockZhIndexDailyEm ''sh000001'')"
    by (simp add: answer_def series_of_def extract_metrics_def run_clean)
  note t_close = fetch_index_data_never_raises[where pd = sample_pandas
      and env = "(sample_providers\<lparr>stock_zh_index_daily_em := \<lambda>symbol. Inr \<lparr>columns = [''date'', ''close''], rows = [[1950, -1]]\<rparr>\<rparr>)"
      and now = 2000 and inst = None and name = shangzheng_zhishu and symbol = "''sh000001''"]
  have "\<forall>c \<in> set (fst (fetch_index_data sample_pandas (sample_providers\<lparr>stock_zh_index_daily_em := \<lambda>symbol. Inr \<lparr>columns = [''date'', ''close''], rows = [[1950, -1]]\<rparr>\<rparr>)
          2000 None shangzheng_zhishu ''sh000001'')).
      failed sample_pandas (sample_providers\<lparr>stock_zh_index_daily_em := \<lambda>symbol. Inr \<lparr>columns = [''date'', ''close''], rows = [[1950, -1]]\<rparr>\<rparr>)
     2000 c"
  proof
    fix c
    assume "c \<in> set (fst (fetch_index_data sample_pandas (sample_providers\<lparr>stock_zh_index_daily_em := \<lambda>symbol. Inr \<lparr>columns = [''date'', ''close''], rows = [[1950, -1]]\<rparr>\<rparr>)
          2000 None shangzheng_zhishu ''sh000001''))"
    then have "c = StockZhIndexDailyEm ''sh000001''" by (simp add: l_close)
    with f_close show "failed sample_pandas (sample_providers\<lparr>stock_zh_index_daily_em := \<lambda>symbol. Inr \<lparr>columns = [''date'', ''close''], rows = [[1950, -1]]\<rparr>\<rparr>)
     2000 c"
      by (simp only:)
  qed
  with t_close
  have r_close: "snd (fetch_index_data sample_pandas (sample_providers\<lparr>stock_zh_index_daily_em := \<lambda>symbol. Inr \<lparr>columns = [''date'', ''close''], rows = [[1950, -1]]\<rparr>\<rparr>)
          2000 None shangzheng_zhishu ''sh000001'')
     = Inr None"
    by blast
  have l_missing: "fst (fetch_index_data sample_pandas (sample_providers\<lparr>stock_zh_index_daily_em := \<lambda>symbol. Inr \<lparr>columns = [''date'', ''open''], rows = [[1950, 5]]\<rparr>\<rparr>)
          2000 None shangzheng_zhishu ''sh000001'')
     = [StockZhIndexDailyEm ''sh000001'']"
    using n by (simp add: fetch_index_data_def fetch_a_share_index_def startswith_def)
  have f_missing: "failed sample_pandas (sample_providers\<lparr>stock_zh_index_daily_em := \<lambda>symbol. Inr \<lparr>columns = [''date'', ''open''], rows = [[1950, 5]]\<rparr>\<rparr>)
     2000 (StockZhIndexDailyEm ''sh000001'')"
    by (simp add: answer_def series_of_def extract_metrics_def run_clean)
  note t_missing = fetch_index_data_never_raises[where pd = sample_pandas
      and env = "(sample_providers\<lparr>stock_zh_index_daily_em := \<lambda>symbol. Inr \<lparr>columns = [''date'', ''open''], rows = [[1950, 5]]\<rparr>\<rparr>)"
      and now = 2000 and inst = None and name = shangzheng_zhishu and symbol = "''sh000001''"]
  have "\<forall>c \<in> set (fst (fetch_index_data sample_pandas (sample_providers\<lparr>stock_zh_index_daily_em := \<lambda>symbol. Inr \<lparr>columns = [''date'', ''open''], rows = [[1950, 5]]\<rparr>\<rparr>)
          2000 None shangzheng_zhishu ''sh000001'')).
      failed sample_pandas (sample_providers\<lparr>stock_zh_index_daily_em := \<lambda>symbol. Inr \<lparr>columns = [''date'', ''open''], rows = [[1950, 5]]\<rparr>\<rparr>)
     2000 c"
  proof
    fix c
    assume "c \<in> set (fst (fetch_index_data sample_pandas (sample_providers\<lparr>stock_zh_index_daily_em := \<lambda>symbol. Inr \<lparr>columns = [''date'', ''open''], rows = [[1950, 5]]\<rparr>\<rparr>)
          2000 None shangzheng_zhishu ''sh000001''))"
    then have "c = StockZhIndexDailyEm ''sh000001''" by (simp add: l_missing)
    with f_missing show "failed sample_pandas (sample_providers\<lparr>stock_zh_index_daily_em := \<lambda>symbol. Inr \<lparr>columns = [''date'', ''open''], rows = [[1950, 5]]\<rparr>\<rparr>)
     2000 c"
      by (simp only:)
  qed
  with t_missing
  have r_missing: "snd (fetch_index_data sample_pandas (sample_providers\<lparr>stock_zh_index_daily_em := \<lambda>symbol. Inr \<lparr>columns = [''date'', ''open''], rows = [[1950, 5]]\<rparr>\<rparr>)
          2000 None shangzheng_zhishu ''sh000001'')
     = Inr None"
    by blast
  have l_nan: "fst (fetch_index_data sample_pandas (sample_providers\<lparr>stock_zh_index_daily_em := \<lambda>symbol. Inr \<lparr>columns = [''date'', ''close'', ''high''], rows = [[1950, 5, -1]]\<rparr>\<rparr>)
          2000 None shangzheng_zhishu ''sh000001'')
     = [StockZhIndexDailyEm ''sh000001'']"
    using n by (simp add: fetch_index_data_def fetch_a_share_index_def startswith_def)
  have f_nan: "failed sample_pandas (sample_providers\<lparr>stock_zh_index_daily_em := \<lambda>symbol. Inr \<lparr>columns = [''date'', ''close'', ''high''], rows = [[1950, 5, -1]]\<rparr>\<rparr>)
     2000 (StockZhIndexDailyEm ''sh000001'')"
    by (simp add: answer_def series_of_def extract_metrics_def run_clean)
  note t_nan = fetch_index_data_never_raises[where pd = sample_pandas
      and env = "(sample_providers\<lparr>stock_zh_index_daily_em := \<lambda>symbol. Inr \<lparr>columns = [''date'', ''close'', ''high''], rows = [[1950, 5, -1]]\<rparr>\<rparr>)"
      and now = 2000 and inst = None and name = shangzheng_zhishu and symbol = "''sh000001''"]
  have "\<forall>c \<in> set (fst (fetch_index_data sample_pandas (sample_providers\<lparr>stock_zh_index_daily_em := \<lambda>symbol. Inr \<lparr>columns = [''date'', ''close'', ''high''], rows = [[1950, 5, -1]]\<rparr>\<rparr>)
          2000 None shangzheng_zhishu ''sh000001'')).
      failed sample_pandas (sample_providers\<lparr>stock_zh_index_daily_em := \<lambda>symbol. Inr \<lparr>columns = [''date'', ''close'', ''high''], rows = [[1950, 5, -1]]\<rparr>\<rparr>)
     2000 c"
  proof
    fix c
    assume "c \<in> set (fst (fetch_index_data sample_pandas (sample_providers\<lparr>stock_zh_index_daily_em := \<lambda>symbol. Inr \<lparr>columns = [''date'', ''close'', ''high''], rows = [[1950, 5, -1]]\<rparr>\<rparr>)
          2000 None shangzheng_zhishu ''sh000001''))"
    then have "c = StockZhIndexDailyEm ''sh000001''" by (simp add: l_nan)
    with f_nan show "failed sample_pandas (sample_providers\<lparr>stock_zh_index_daily_em := \<lambda>symbol. Inr \<lparr>columns = [''date'', ''close'', ''high''], rows = [[1950, 5, -1]]\<rparr>\<rparr>)
     2000 c"
      by (simp only:)
  qed
  with t_nan
  have r_nan: "snd (fetch_index_data sample_pandas (sample_providers\<lparr>stock_zh_index_daily_em := \<lambda>symbol. Inr \<lparr>columns = [''date'', ''close'', ''high''], rows = [[1950, 5, -1]]\<rparr>\<rparr>)
          2000 None shangzheng_zhishu ''sh000001'')
     = Inr None"
    by blast
  from a b r0 f_zero r_zero f_close r_close f_missing r_missing f_nan r_nan show ?thesis by (intro conjI)
qed

section \<open>Properties of the persisted state\<close>

lemma map_of_constant:
  "map_of (map (\<lambda>name. (name, c)) names) name = (if name \<in> set names then Some c else None)"
  by (induction names) auto

lemma default_data_complete:
  assumes "name \<in> set get_all_index_names"
  shows "supports default_data name = Some 3000"
    and "atmospheres default_data name = Some 4000"
    and "notes' default_data name = Some []"
  using assms by (simp_all add: default_data_def map_of_constant)

lemma load_returns: "\<exists>data. load file = Inr data"
  by (cases "load_try file default_data") (auto simp: load_def split: sum.splits)

lemma load_well_typed:
  assumes "saved_supports saved \<noteq> Some NotMapping"
    and "saved_atmospheres saved \<noteq> Some NotMapping"
    and "saved_notes saved \<noteq> Some NotMapping"
  shows "load (Document saved) =
     Inr \<lparr>supports = (case saved_supports saved of
                    Some (Mapping m) \<Rightarrow> supports default_data ++ m
                  | _ \<Rightarrow> supports default_data),
      atmospheres = (case saved_atmospheres saved of
                    Some (Mapping m) \<Rightarrow> atmospheres default_data ++ m
                  | _ \<Rightarrow> atmospheres default_data),
      notes' = (case saved_notes saved of
                    Some (Mapping m) \<Rightarrow> notes' default_data ++ m
                  | _ \<Rightarrow> notes' default_data)\<rparr>"
  using assms
  by (auto simp: load_def load_try_def path_exists_def open_file_def json_load_def
      update_from_def split: option.splits saved_section.splits)

text \<open>
  C8. For a configured index name, the thresholds read from a freshly loaded state with no
  file are 3000 and 4000. Loading a document whose three sections are each absent or an
  object gives, for that name, the saved value where the section has the name and the
  default (3000, 4000, no entries) where the section or the name is missing.
\<close>

theorem load_defaults_and_merge:
  assumes "name \<in> set get_all_index_names"
  shows "(\<exists>data. load Absent = Inr data \<and> read_thresholds data name = (3000, 4000)) \<and>
     (saved_supports saved \<noteq> Some NotMapping \<and>
      saved_atmospheres saved \<noteq> Some NotMapping \<and>
      saved_notes saved \<noteq> Some NotMapping \<longrightarrow>
        (\<exists>data. load (Document saved) = Inr data \<and>
          supports data name =
            Some (case saved_supports saved of
                    Some (Mapping m) \<Rightarrow> (case m name of Some v \<Rightarrow> v | None \<Rightarrow> 3000)
                  | _ \<Rightarrow> 3000) \<and>
          atmospheres data name =
            Some (case saved_atmospheres saved of
                    Some (Mapping m) \<Rightarrow> (case m name of Some v \<Rightarrow> v | None \<Rightarrow> 4000)
                  | _ \<Rightarrow> 4000) \<and>
          notes' data name =
            Some (case saved_notes saved of
                    Some (Mapping m) \<Rightarrow> (case m name of Some v \<Rightarrow> v | None \<Rightarrow> [])
                  | _ \<Rightarrow> [])))"
proof (intro conjI impI)
  have "load Absent = Inr default_data"
    by (simp add: load_def path_exists_def)
  moreover have "read_thresholds default_data name = (3000, 4000)"
    using default_data_complete[OF assms] by (simp add: read_thresholds_def)
  ultimately show "\<exists>data. load Absent = Inr data \<and> read_thresholds data name = (3000, 4000)"
    by blast
next
  assume ok: "saved_supports saved \<noteq> Some NotMapping \<and>
      saved_atmospheres saved \<noteq> Some NotMapping \<and>
      saved_notes saved \<noteq> Some NotMapping"
  define merged where "merged =
     \<lparr>supports = (case saved_supports saved of
                    Some (Mapping m) \<Rightarrow> supports default_data ++ m
                  | _ \<Rightarrow> supports default_data),
      atmospheres = (case saved_atmospheres saved of
                    Some (Mapping m) \<Rightarrow> atmospheres default_data ++ m
                  | _ \<Rightarrow> atmospheres default_data),
      notes' = (case saved_notes saved of
                    Some (Mapping m) \<Rightarrow> notes' default_data ++ m
                  | _ \<Rightarrow> notes' default_data)\<rparr>"
  from ok have L: "load (Document saved) = Inr merged"
    unfolding merged_def by (intro load_well_typed) simp_all
  have s: "supports merged name =
          Some (case saved_supports saved of
                  Some (Mapping m) \<Rightarrow> (case m name of Some v \<Rightarrow> v | None \<Rightarrow> 3000)
                | _ \<Rightarrow> 3000)"
    unfolding merged_def using default_data_complete(1)[OF assms]
    by (simp add: map_add_def split: option.splits saved_section.splits)
  have a: "atmospheres merged name =
          Some (case saved_atmospheres saved of
                  Some (Mapping m) \<Rightarrow> (case m name of Some v \<Rightarrow> v | None \<Rightarrow> 4000)
                | _ \<Rightarrow> 4000)"
    unfolding merged_def using default_data_complete(2)[OF assms]
    by (simp add: map_add_def split: option.splits saved_section.splits)
  have n: "notes' merged name =
          Some (case saved_notes saved of
                  Some (Mapping m) \<Rightarrow> (case m name of Some v \<Rightarrow> v | None \<Rightarrow> [])
                | _ \<Rightarrow> [])"
    unfolding merged_def using default_data_complete(3)[OF assms]
    by (simp add: map_add_def split: option.splits saved_section.splits)
  from L s a n show "\<exists>data. load (Document saved) = Inr data \<and>
          supports data name =
            Some (case saved_supports saved of
                    Some (Mapping m) \<Rightarrow> (case m name of Some v \<Rightarrow> v | None \<Rightarrow> 3000)
                  | _ \<Rightarrow> 3000) \<and>
          atmospheres data name =
            Some (case saved_atmospheres saved of
                    Some (Mapping m) \<Rightarrow> (case m name of Some v \<Rightarrow> v | None \<Rightarrow> 4000)
                  | _ \<Rightarrow> 4000) \<and>
          notes' data name =
            Some (case saved_notes saved of
                    Some (Mapping m) \<Rightarrow> (case m name of Some v \<Rightarrow> v | None \<Rightarrow> [])
                  | _ \<Rightarrow> [])"
    by blast
qed

lemmas index_names_def =
  get_all_index_names_def INDEX_GROUPS_def shangzheng_zhishu_def chuangyeban_zhi_def
  hushen_300_def zhongzheng_500_def shangzheng_50_def zhongzheng_1000_def

theorem load_defaults_and_merge_witness:
  "hushen_300 \<in> set get_all_index_names \<and>
   (\<exists>data. load Absent = Inr data \<and> read_thresholds data hushen_300 = (3000, 4000)) \<and>
   (\<exists>data. load (Document \<lparr>saved_supports = Some (Mapping [hushen_300 \<mapsto> 3500]),
                            saved_atmospheres = None, saved_notes = None\<rparr>) = Inr data \<and>
      supports data hushen_300 = Some 3500 \<and>
      atmospheres data hushen_300 = Some 4000 \<and>
      notes' data hushen_300 = Some [])"
proof -
  have a: "hushen_300 \<in> set get_all_index_names"
    by (simp add: index_names_def)
  from load_defaults_and_merge[OF a, of "\<lparr>saved_supports = Some (Mapping [hushen_300 \<mapsto> 3500]),
                             saved_atmospheres = None, saved_notes = None\<rparr>"]
  show ?thesis using a by simp
qed

text \<open>
  C10. \<open>load\<close> returns a document whatever is on disk. When the file does not exist, when
  \<open>open\<close> raises, or when \<open>json.load\<close> raises on the opened file, the document
  is the default one, which has 3000, 4000 and an empty journal for every configured index
  name.
\<close>

theorem load_total_default:
  "(\<exists>data. load file = Inr data) \<and>
   (\<not> path_exists file \<or> (\<exists>e. open_file file = Inl e) \<or>
    (\<exists>f e. open_file file = Inr f \<and> json_load f = Inl e) \<longrightarrow>
      load file = Inr default_data) \<and>
   (\<forall>name \<in> set get_all_index_names.
      supports default_data name = Some 3000 \<and>
      atmospheres default_data name = Some 4000 \<and>
      notes' default_data name = Some [])"
proof (intro conjI impI ballI)
  show "\<exists>data. load file = Inr data" by (rule load_returns)
next
  assume "\<not> path_exists file \<or> (\<exists>e. open_file file = Inl e) \<or>
    (\<exists>f e. open_file file = Inr f \<and> json_load f = Inl e)"
  then consider "\<not> path_exists file" | e where "open_file file = Inl e"
    | f e where "open_file file = Inr f" "json_load f = Inl e"
    by auto
  then show "load file = Inr default_data"
  proof cases
    case 1
    then show ?thesis by (simp add: load_def)
  next
    case 2
    then show ?thesis by (simp add: load_def load_try_def)
  next
    case 3
    then show ?thesis by (simp add: load_def load_try_def)
  qed
next
  fix name assume "name \<in> set get_all_index_names"
  then show "supports default_data name = Some 3000"
    and "atmospheres default_data name = Some 4000"
    and "notes' default_data name = Some []"
    by (rule default_data_complete)+
qed

theorem load_total_default_witness:
  "\<not> path_exists Absent \<and> load Absent = Inr default_data \<and>
   open_file Unreadable = Inl OSError \<and> load Unreadable = Inr default_data \<and>
   open_file Malformed = Inr Malformed \<and> json_load Malformed = Inl ValueError \<and>
   load Malformed = Inr default_data \<and>
   zhonggai_hulian \<in> set get_all_index_names \<and>
   supports default_data zhonggai_hulian = Some 3000 \<and>
   atmospheres default_data zhonggai_hulian = Some 4000 \<and>
   notes' default_data zhonggai_hulian = Some []"
proof -
  have a: "\<not> path_exists Absent" by (simp add: path_exists_def)
  have b: "open_file Unreadable = Inl OSError" by (simp add: open_file_def)
  have c: "open_file Malformed = Inr Malformed" "json_load Malformed = Inl ValueError"
    by (simp_all add: open_file_def json_load_def)
  have d: "zhonggai_hulian \<in> set get_all_index_names"
    by (simp add: get_all_index_names_def INDEX_GROUPS_def)
  from load_total_default[of Absent] a have "load Absent = Inr default_data" by blast
  moreover from load_total_default[of Unreadable] b have "load Unreadable = Inr default_data"
    by blast
  moreover from load_total_default[of Malformed] c have "load Malformed = Inr default_data"
    by blast
  moreover from load_total_default[of Absent] d
  have "supports default_data zhonggai_hulian = Some 3000 \<and>
   atmospheres default_data zhonggai_hulian = Some 4000 \<and>
   notes' default_data zhonggai_hulian = Some []"
    by blast
  ultimately show ?thesis using a b c d by simp
qed

section \<open>Properties of the journal\<close>

lemma sort_reverse_descending: "sorted (rev (map key (sort_reverse key xs)))"
  by (simp add: sort_reverse_def rev_map)

lemma sort_reverse_stable:
  "filter (\<lambda>x. key x = k) (sort_reverse key xs) = filter (\<lambda>x. key x = k) xs"
proof -
  have "filter (\<lambda>x. key x = k) (sort_reverse key xs) =
      rev (filter (\<lambda>x. key x = k) (sort_key key (rev xs)))"
    by (simp add: sort_reverse_def rev_filter)
  also have "\<dots> = rev (filter (\<lambda>x. key x = k) (rev xs))"
    by (simp only: sort_key_stable)
  also have "\<dots> = filter (\<lambda>x. key x = k) xs"
    by (simp add: rev_filter)
  finally show ?thesis .
qed

lemma add_note_entries:
  assumes "strip content_input \<noteq> []"
  shows "notes' (fst (add_note outcome True name d content_input (data, file))) name =
     Some (sort_reverse date'
       ((case notes' data name of None \<Rightarrow> [] | Some entries \<Rightarrow> entries) @
        [\<lparr>date' = d, content = strip content_input\<rparr>]))"
  using assms by (simp add: add_note_def Let_def)

text \<open>
  C9, as the code has it. After a submitted note with content, the journal of the index is
  in descending order of date, and the entries of any one date stand in the order in which
  they were before, the new entry after them; when the write succeeds the file holds the
  updated document.
\<close>

theorem add_note_sorted_persisted:
  assumes "strip content_input \<noteq> []"
  shows "\<exists>entries.
           notes' (fst (add_note outcome True name d content_input (data, file))) name
             = Some entries \<and>
           sorted (rev (map date' entries)) \<and>
           (\<forall>k. filter (\<lambda>e. date' e = k) entries =
                filter (\<lambda>e. date' e = k)
                  ((case notes' data name of None \<Rightarrow> [] | Some es \<Rightarrow> es) @
                   [\<lparr>date' = d, content = strip content_input\<rparr>])) \<and>
           (outcome = Written \<longrightarrow>
              snd (add_note outcome True name d content_input (data, file)) =
                Document (dump (fst (add_note outcome True name d content_input (data, file)))))"
proof -
  let ?appended = "(case notes' data name of None \<Rightarrow> [] | Some es \<Rightarrow> es) @
                   [\<lparr>date' = d, content = strip content_input\<rparr>]"
  have "notes' (fst (add_note outcome True name d content_input (data, file))) name
      = Some (sort_reverse date' ?appended)"
    using assms by (rule add_note_entries)
  moreover have "sorted (rev (map date' (sort_reverse date' ?appended)))"
    by (rule sort_reverse_descending)
  moreover have "\<forall>k. filter (\<lambda>e. date' e = k) (sort_reverse date' ?appended) =
      filter (\<lambda>e. date' e = k) ?appended"
    by (simp add: sort_reverse_stable)
  moreover have "outcome = Written \<longrightarrow>
              snd (add_note outcome True name d content_input (data, file)) =
                Document (dump (fst (add_note outcome True name d content_input (data, file))))"
    using assms by (simp add: add_note_def Let_def save_def)
  ultimately show ?thesis by blast
qed

lemma strip_notes:
  "strip ''  sell half '' = ''sell half''"
  "strip ''second'' = ''second''"
  "strip [CHR 0xE3, CHR 0x80, CHR 0x80] = []"
  "strip [CHR 0xC2, CHR 0xA0, CHR 0x20, CHR 0xC2, CHR 0x85] = []"
  by code_simp+

lemma add_note_blank:
  "add_note outcome True name d [CHR 0xE3, CHR 0x80, CHR 0x80] state = state"
  "add_note outcome True name d [CHR 0xC2, CHR 0xA0, CHR 0x20, CHR 0xC2, CHR 0x85] state = state"
  by (simp_all add: add_note_def strip_notes split: prod.splits)

lemmas run_add_note =
  add_note_def sort_reverse_def save_def dump_def strip_notes Let_def

theorem add_note_sorted_persisted_witness:
  "strip ''  sell half '' \<noteq> [] \<and>
   add_note Written True ''idx'' ''2024-06-01'' ''  sell half ''
      (\<lparr>supports = Map.empty, atmospheres = Map.empty,
        notes' = [''idx'' \<mapsto> [\<lparr>date' = ''2024-05-01'', content = ''buy''\<rparr>]]\<rparr>, Absent)
     = (\<lparr>supports = Map.empty, atmospheres = Map.empty,
         notes' = [''idx'' \<mapsto> [\<lparr>date' = ''2024-06-01'', content = ''sell half''\<rparr>,
                                \<lparr>date' = ''2024-05-01'', content = ''buy''\<rparr>]]\<rparr>,
        Document \<lparr>saved_supports = Some (Mapping Map.empty),
                  saved_atmospheres = Some (Mapping Map.empty),
                  saved_notes = Some (Mapping
                    [''idx'' \<mapsto> [\<lparr>date' = ''2024-06-01'', content = ''sell half''\<rparr>,
                                  \<lparr>date' = ''2024-05-01'', content = ''buy''\<rparr>]])\<rparr>) \<and>
   (\<exists>entries.
      notes' (fst (add_note Written True ''idx'' ''2024-06-01'' ''  sell half ''
        (\<lparr>supports = Map.empty, atmospheres = Map.empty,
          notes' = [''idx'' \<mapsto> [\<lparr>date' = ''2024-05-01'', content = ''buy''\<rparr>]]\<rparr>, Absent))) ''idx''
        = Some entries \<and>
      sorted (rev (map date' entries)))"
proof -
  have a: "strip ''  sell half '' \<noteq> []"
    by (simp add: strip_notes)
  have b: "add_note Written True ''idx'' ''2024-06-01'' ''  sell half ''
      (\<lparr>supports = Map.empty, atmospheres = Map.empty,
        notes' = [''idx'' \<mapsto> [\<lparr>date' = ''2024-05-01'', content = ''buy''\<rparr>]]\<rparr>, Absent)
     = (\<lparr>supports = Map.empty, atmospheres = Map.empty,
         notes' = [''idx'' \<mapsto> [\<lparr>date' = ''2024-06-01'', content = ''sell half''\<rparr>,
                                \<lparr>date' = ''2024-05-01'', content = ''buy''\<rparr>]]\<rparr>,
        Document \<lparr>saved_supports = Some (Mapping Map.empty),
                  saved_atmospheres = Some (Mapping Map.empty),
                  saved_notes = Some (Mapping
                    [''idx'' \<mapsto> [\<lparr>date' = ''2024-06-01'', content = ''sell half''\<rparr>,
                                  \<lparr>date' = ''2024-05-01'', content = ''buy''\<rparr>]])\<rparr>)"
    by (simp add: run_add_note)
  from add_note_sorted_persisted[OF a, of Written "''idx''" "''2024-06-01''"
      "\<lparr>supports = Map.empty, atmospheres = Map.empty,
        notes' = [''idx'' \<mapsto> [\<lparr>date' = ''2024-05-01'', content = ''buy''\<rparr>]]\<rparr>" Absent]
  have "\<exists>entries.
      notes' (fst (add_note Written True ''idx'' ''2024-06-01'' ''  sell half ''
        (\<lparr>supports = Map.empty, atmospheres = Map.empty,
          notes' = [''idx'' \<mapsto> [\<lparr>date' = ''2024-05-01'', content = ''buy''\<rparr>]]\<rparr>, Absent))) ''idx''
        = Some entries \<and>
      sorted (rev (map date' entries))"
    by blast
  with a b show ?thesis by blast
qed

text \<open>
  C9 as stated fails in its last part: the order of the entries of one date is fixed, it is
  the order of insertion. No submitted note changes the order of the entries that share a
  date, and the new entry comes last among those of its date, as in the example. It also
  fails in the part on persistence when the write fails: when \<open>open\<close> raises in
  \<open>save\<close>, the exception is caught, the session holds the new entry and the file is as
  it was, here absent.
\<close>

theorem add_note_same_date_counterexample:
  "\<not> (\<exists>outcome name d c data file k.
        strip c \<noteq> [] \<and>
        filter (\<lambda>e. date' e = k)
          (the (notes' (fst (add_note outcome True name d c (data, file))) name)) \<noteq>
        filter (\<lambda>e. date' e = k)
          ((case notes' data name of None \<Rightarrow> [] | Some es \<Rightarrow> es) @
           [\<lparr>date' = d, content = strip c\<rparr>])) \<and>
   notes' (fst (add_note Written True ''idx'' ''2024-05-01'' ''second''
      (\<lparr>supports = Map.empty, atmospheres = Map.empty,
        notes' = [''idx'' \<mapsto> [\<lparr>date' = ''2024-06-01'', content = ''newer''\<rparr>,
                               \<lparr>date' = ''2024-05-01'', content = ''first''\<rparr>]]\<rparr>, Absent))) ''idx''
     = Some [\<lparr>date' = ''2024-06-01'', content = ''newer''\<rparr>,
             \<lparr>date' = ''2024-05-01'', content = ''first''\<rparr>,
             \<lparr>date' = ''2024-05-01'', content = ''second''\<rparr>] \<and>
   add_note OpenFailed True ''idx'' ''2024-05-01'' ''second''
      (\<lparr>supports = Map.empty, atmospheres = Map.empty, notes' = Map.empty\<rparr>, Absent)
     = (\<lparr>supports = Map.empty, atmospheres = Map.empty,
         notes' = [''idx'' \<mapsto> [\<lparr>date' = ''2024-05-01'', content = ''second''\<rparr>]]\<rparr>,
        Absent)"
proof -
  have "filter (\<lambda>e. date' e = k)
          (the (notes' (fst (add_note outcome True name d c (data, fl))) name)) =
        filter (\<lambda>e. date' e = k)
          ((case notes' data name of None \<Rightarrow> [] | Some es \<Rightarrow> es) @
           [\<lparr>date' = d, content = strip c\<rparr>])"
    if "strip c \<noteq> []" for outcome name d c data fl k
    using add_note_entries[OF that, of outcome name d data fl]
    by (simp add: sort_reverse_stable)
  then have general: "\<not> (\<exists>outcome name d c data file k.
        strip c \<noteq> [] \<and>
        filter (\<lambda>e. date' e = k)
          (the (notes' (fst (add_note outcome True name d c (data, file))) name)) \<noteq>
        filter (\<lambda>e. date' e = k)
          ((case notes' data name of None \<Rightarrow> [] | Some es \<Rightarrow> es) @
           [\<lparr>date' = d, content = strip c\<rparr>]))"
    by blast
  have "notes' (fst (add_note Written True ''idx'' ''2024-05-01'' ''second''
      (\<lparr>supports = Map.empty, atmospheres = Map.empty,
        notes' = [''idx'' \<mapsto> [\<lparr>date' = ''2024-06-01'', content = ''newer''\<rparr>,
                               \<lparr>date' = ''2024-05-01'', content = ''first''\<rparr>]]\<rparr>, Absent))) ''idx''
     = Some [\<lparr>date' = ''2024-06-01'', content = ''newer''\<rparr>,
             \<lparr>date' = ''2024-05-01'', content = ''first''\<rparr>,
             \<lparr>date' = ''2024-05-01'', content = ''second''\<rparr>]"
    by (simp add: run_add_note)
  moreover have "add_note OpenFailed True ''idx'' ''2024-05-01'' ''second''
      (\<lparr>supports = Map.empty, atmospheres = Map.empty, notes' = Map.empty\<rparr>, Absent)
     = (\<lparr>supports = Map.empty, atmospheres = Map.empty,
         notes' = [''idx'' \<mapsto> [\<lparr>date' = ''2024-05-01'', content = ''second''\<rparr>]]\<rparr>,
        Absent)"
    by (simp add: run_add_note)
  ultimately show ?thesis using general by blast
qed

end
